theory Spec2Isabelle
  imports Complex_Main
begin

section \<open>JavaScript values and objects\<close>

text \<open>
  The application is a React component (\<^verbatim>\<open>src/App.tsx\<close>). Its state is a handful of
  \<^verbatim>\<open>useState\<close> cells; every handler is modelled as a function from the state before the
  call to the state after it. Strings are \<^typ>\<open>string\<close>; a plain JavaScript object is a
  partial map from property names to values, where an absent key and \<^verbatim>\<open>undefined\<close>
  are told apart as JavaScript does for own properties.
\<close>

datatype jsval =
    JUndefined
  | JNull
  | JBool bool
  | JNum rat
  | JStr string
  | JArr "jsval list"
  | JObj "(string \<times> jsval) list"

type_synonym js_object = "string \<rightharpoonup> jsval"

text \<open>JavaScript truthiness (\<^verbatim>\<open>ToBoolean\<close>) of a value.\<close>

fun truthy :: "jsval \<Rightarrow> bool" where
  "truthy JUndefined = False"
| "truthy JNull = False"
| "truthy (JBool b) = b"
| "truthy (JNum r) = (r \<noteq> 0)"
| "truthy (JStr s) = (s \<noteq> [])"
| "truthy (JArr xs) = True"
| "truthy (JObj kvs) = True"

text \<open>\<^verbatim>\<open>s.startsWith(p)\<close> and \<^verbatim>\<open>s.endsWith(p)\<close>.\<close>

definition startsWith :: "string \<Rightarrow> string \<Rightarrow> bool" where
  "startsWith s p = (take (length p) s = p)"

definition endsWith :: "string \<Rightarrow> string \<Rightarrow> bool" where
  "endsWith s p = (length p \<le> length s \<and> drop (length s - length p) s = p)"

text \<open>\<^verbatim>\<open>s.includes(p)\<close>: \<open>p\<close> occurs in \<open>s\<close> as a contiguous substring.\<close>

fun includes_str :: "string \<Rightarrow> string \<Rightarrow> bool" where
  "includes_str [] p = (p = [])"
| "includes_str (c # cs) p = (startsWith (c # cs) p \<or> includes_str cs p)"

text \<open>
  \<^verbatim>\<open>Array.prototype.findIndex\<close>: the index of the first element that satisfies the
  predicate; \<open>None\<close> stands for the result \<^verbatim>\<open>-1\<close>.
\<close>

fun findIndex :: "('a \<Rightarrow> bool) \<Rightarrow> 'a list \<Rightarrow> nat option" where
  "findIndex P [] = None"
| "findIndex P (x # xs) = (if P x then Some 0 else map_option Suc (findIndex P xs))"

section \<open>Strings, JSON and the translation helper\<close>

text \<open>
  A JavaScript string is modelled by the bytes of its UTF-8 encoding.
  \<^verbatim>\<open>toLowerCase\<close> maps the letters \<^verbatim>\<open>A\<close> to \<^verbatim>\<open>Z\<close> to lower case, and so it does
  with the only two other characters whose lower-case form contains an ASCII character:
  U+212A KELVIN SIGN (bytes E2 84 AA) becomes \<^verbatim>\<open>k\<close>, and U+0130 (bytes C4 B0) becomes
  \<^verbatim>\<open>i\<close> followed by U+0307 (bytes CC 87). Every other character outside ASCII is
  left as it is: JavaScript may replace it by other characters outside ASCII, which no
  ASCII text can match, so the \<^verbatim>\<open>includes\<close> tests of this program, whose needles are
  ASCII, have the same answers on the model as on the program.
\<close>

definition lower_char :: "char \<Rightarrow> char" where
  "lower_char c =
     (let n = (of_char c :: nat) in if 65 \<le> n \<and> n \<le> 90 then char_of (n + 32) else c)"

function toLowerCase :: "string \<Rightarrow> string" where
  "toLowerCase s =
     (case s of
        [] \<Rightarrow> []
      | c # cs \<Rightarrow>
          if c = CHR 0xE2 \<and> take 2 cs = [CHR 0x84, CHR 0xAA]
          then CHR ''k'' # toLowerCase (drop 2 cs)
          else if c = CHR 0xC4 \<and> take 1 cs = [CHR 0xB0]
          then CHR ''i'' # CHR 0xCC # CHR 0x87 # toLowerCase (drop 1 cs)
          else lower_char c # toLowerCase cs)"
  by pat_completeness auto
termination
  by (relation "measure length") auto

definition is_digit :: "char \<Rightarrow> bool" where
  "is_digit c = (let n = (of_char c :: nat) in 48 \<le> n \<and> n \<le> 57)"

definition digits_val :: "string \<Rightarrow> nat" where
  "digits_val ds = foldl (\<lambda>a c. 10 * a + ((of_char c :: nat) - 48)) 0 ds"

definition is_ws :: "char \<Rightarrow> bool" where
  "is_ws c = (c = CHR '' '' \<or> c = CHR 0x09 \<or> c = CHR 0x0A \<or> c = CHR 0x0D)"

definition skip_ws :: "string \<Rightarrow> string" where
  "skip_ws s = dropWhile is_ws s"

text \<open>
  \<^verbatim>\<open>JSON.parse\<close>. Objects are kept as association lists in which a repeated key keeps
  its first position and its last value, as the property of a JavaScript object does.
  A number is the exact rational value of its literal: \<^verbatim>\<open>JSON.parse\<close> rounds that
  value to a double, in a way the language leaves open for literals of more than twenty
  digits, and the rounding is not modelled; the two agree on every literal whose value is
  a double, such as the status codes of this program. An escape \<^verbatim>\<open>\uXXXX\<close> is
  decoded to the UTF-8 bytes of its character, a high surrogate followed by the escape of
  a low surrogate to the four bytes of the character the pair stands for, and a
  surrogate on its own to the three bytes of its code unit.
\<close>

fun obj_set :: "string \<Rightarrow> jsval \<Rightarrow> (string \<times> jsval) list \<Rightarrow> (string \<times> jsval) list" where
  "obj_set k v [] = [(k, v)]"
| "obj_set k v ((k', v') # kvs) =
     (if k = k' then (k, v) # kvs else (k', v') # obj_set k v kvs)"

definition hex_val :: "char \<Rightarrow> nat option" where
  "hex_val c =
     (let n = (of_char c :: nat) in
      if 48 \<le> n \<and> n \<le> 57 then Some (n - 48)
      else if 65 \<le> n \<and> n \<le> 70 then Some (n - 55)
      else if 97 \<le> n \<and> n \<le> 102 then Some (n - 87)
      else None)"

definition utf8 :: "nat \<Rightarrow> string" where
  "utf8 n =
     (if n < 128 then [char_of n]
      else if n < 2048 then [char_of (192 + n div 64), char_of (128 + n mod 64)]
      else if n < 65536 then
        [char_of (224 + n div 4096), char_of (128 + (n div 64) mod 64),
         char_of (128 + n mod 64)]
      else
        [char_of (240 + n div 262144), char_of (128 + (n div 4096) mod 64),
         char_of (128 + (n div 64) mod 64), char_of (128 + n mod 64)])"

text \<open>The value of the four hexadecimal digits at the start of a text.\<close>

definition hex4 :: "string \<Rightarrow> nat option" where
  "hex4 r =
     (case r of
        a # b # c # d # _ \<Rightarrow>
          (case (hex_val a, hex_val b, hex_val c, hex_val d) of
             (Some x3, Some x2, Some x1, Some x0) \<Rightarrow> Some (4096 * x3 + 256 * x2 + 16 * x1 + x0)
           | _ \<Rightarrow> None)
      | _ \<Rightarrow> None)"

text \<open>
  The low surrogate escaped at the start of a text, if there is one:
  \<^verbatim>\<open>\uDC00\<close> to \<^verbatim>\<open>\uDFFF\<close>.
\<close>

definition low_surrogate :: "string \<Rightarrow> nat option" where
  "low_surrogate r =
     (if take 2 r = [CHR 0x5C, CHR ''u''] then
        (case hex4 (drop 2 r) of
           Some lo \<Rightarrow> if 56320 \<le> lo \<and> lo < 57344 then Some lo else None
         | None \<Rightarrow> None)
      else None)"

definition unescape :: "char \<Rightarrow> char option" where
  "unescape e =
     (if e = CHR 0x22 \<or> e = CHR 0x5C \<or> e = CHR ''/'' then Some e
      else if e = CHR ''b'' then Some (CHR 0x08)
      else if e = CHR ''f'' then Some (CHR 0x0C)
      else if e = CHR ''n'' then Some (CHR 0x0A)
      else if e = CHR ''r'' then Some (CHR 0x0D)
      else if e = CHR ''t'' then Some (CHR 0x09)
      else None)"

text \<open>The characters of a string literal after its opening quote, and what follows it.\<close>

function parse_chars :: "string \<Rightarrow> (string \<times> string) option" where
  "parse_chars s =
     (case s of
        [] \<Rightarrow> None
      | c # cs \<Rightarrow>
          if c = CHR 0x22 then Some ([], cs)
          else if c = CHR 0x5C then
            (case cs of
               [] \<Rightarrow> None
             | e # r \<Rightarrow>
                 if e = CHR ''u'' then
                   (case hex4 r of
                      None \<Rightarrow> None
                    | Some u \<Rightarrow>
                        (case (if 55296 \<le> u \<and> u < 56320 then low_surrogate (drop 4 r)
                               else None) of
                           Some lo \<Rightarrow>
                             map_option
                               (apfst (\<lambda>x. utf8 (65536 + (u - 55296) * 1024 + (lo - 56320)) @ x))
                               (parse_chars (drop 10 r))
                         | None \<Rightarrow>
                             map_option (apfst (\<lambda>x. utf8 u @ x)) (parse_chars (drop 4 r))))
                 else
                   (case unescape e of
                      None \<Rightarrow> None
                    | Some ch \<Rightarrow> map_option (apfst (\<lambda>x. ch # x)) (parse_chars r)))
          else if (of_char c :: nat) < 32 then None
          else map_option (apfst (\<lambda>x. c # x)) (parse_chars cs))"
  by pat_completeness auto
termination
  by (relation "measure length") auto

text \<open>
  A number literal: an optional minus sign, an integer part without a leading zero, an
  optional fraction and an optional exponent.
\<close>

definition parse_number :: "string \<Rightarrow> (rat \<times> string) option" where
  "parse_number s =
     (let neg = (s \<noteq> [] \<and> hd s = CHR ''-'');
          s1 = (if neg then tl s else s);
          ip = takeWhile is_digit s1;
          s2 = dropWhile is_digit s1;
          hasFrac = (s2 \<noteq> [] \<and> hd s2 = CHR ''.'');
          fp = (if hasFrac then takeWhile is_digit (tl s2) else []);
          s3 = (if hasFrac then dropWhile is_digit (tl s2) else s2);
          hasExp = (s3 \<noteq> [] \<and> (hd s3 = CHR ''e'' \<or> hd s3 = CHR ''E''));
          s4 = (if hasExp then tl s3 else s3);
          expNeg = (hasExp \<and> s4 \<noteq> [] \<and> hd s4 = CHR ''-'');
          s5 = (if hasExp \<and> s4 \<noteq> [] \<and> (hd s4 = CHR ''-'' \<or> hd s4 = CHR ''+'') then tl s4 else s4);
          ep = (if hasExp then takeWhile is_digit s5 else []);
          s6 = (if hasExp then dropWhile is_digit s5 else s3);
          mant = (of_nat (digits_val ip) :: rat) + of_nat (digits_val fp) / 10 ^ length fp;
          scaled = (if expNeg then mant / 10 ^ digits_val ep else mant * 10 ^ digits_val ep)
      in if ip = [] \<or> (length ip > 1 \<and> hd ip = CHR ''0'') then None
         else if hasFrac \<and> fp = [] then None
         else if hasExp \<and> ep = [] then None
         else Some (if neg then - scaled else scaled, s6))"

text \<open>
  Values, array elements and object members, by recursive descent. The first argument
  bounds the depth of the recursion; \<open>JSON_parse\<close> starts with more than any input of
  that length can need, since every second call at least consumes a character.
\<close>

fun parse_value :: "nat \<Rightarrow> string \<Rightarrow> (jsval \<times> string) option"
  and parse_elems :: "nat \<Rightarrow> jsval list \<Rightarrow> string \<Rightarrow> (jsval \<times> string) option"
  and parse_members :: "nat \<Rightarrow> (string \<times> jsval) list \<Rightarrow> string \<Rightarrow> (jsval \<times> string) option"
where
  "parse_value 0 s = None"
| "parse_value (Suc n) s =
     (case s of
        [] \<Rightarrow> None
      | c # r \<Rightarrow>
          if c = CHR ''{'' then
            (case skip_ws r of
               [] \<Rightarrow> None
             | c' # r' \<Rightarrow> if c' = CHR ''}'' then Some (JObj [], r') else parse_members n [] (c' # r'))
          else if c = CHR ''['' then
            (case skip_ws r of
               [] \<Rightarrow> None
             | c' # r' \<Rightarrow> if c' = CHR '']'' then Some (JArr [], r') else parse_elems n [] (c' # r'))
          else if c = CHR 0x22 then map_option (apfst JStr) (parse_chars r)
          else if startsWith s ''true'' then Some (JBool True, drop 4 s)
          else if startsWith s ''false'' then Some (JBool False, drop 5 s)
          else if startsWith s ''null'' then Some (JNull, drop 4 s)
          else map_option (apfst JNum) (parse_number s))"
| "parse_elems 0 acc s = None"
| "parse_elems (Suc n) acc s =
     (case parse_value n s of
        None \<Rightarrow> None
      | Some (v, r) \<Rightarrow>
          (case skip_ws r of
             [] \<Rightarrow> None
           | c # r' \<Rightarrow>
               if c = CHR '','' then parse_elems n (acc @ [v]) (skip_ws r')
               else if c = CHR '']'' then Some (JArr (acc @ [v]), r')
               else None))"
| "parse_members 0 acc s = None"
| "parse_members (Suc n) acc s =
     (case s of
        [] \<Rightarrow> None
      | q # r0 \<Rightarrow>
          if q \<noteq> CHR 0x22 then None
          else
            (case parse_chars r0 of
               None \<Rightarrow> None
             | Some (k, r1) \<Rightarrow>
                 (case skip_ws r1 of
                    [] \<Rightarrow> None
                  | c # r2 \<Rightarrow>
                      if c \<noteq> CHR '':'' then None
                      else
                        (case parse_value n (skip_ws r2) of
                           None \<Rightarrow> None
                         | Some (v, r3) \<Rightarrow>
                             (case skip_ws r3 of
                                [] \<Rightarrow> None
                              | c' # r4 \<Rightarrow>
                                  if c' = CHR '','' then parse_members n (obj_set k v acc) (skip_ws r4)
                                  else if c' = CHR ''}'' then Some (JObj (obj_set k v acc), r4)
                                  else None)))))"

text \<open>\<^verbatim>\<open>JSON.parse(s)\<close>; \<open>None\<close> is the \<^verbatim>\<open>SyntaxError\<close>.\<close>

definition JSON_parse :: "string \<Rightarrow> jsval option" where
  "JSON_parse s =
     (case parse_value (2 * length s + 2) (skip_ws s) of
        None \<Rightarrow> None
      | Some (v, r) \<Rightarrow> if skip_ws r = [] then Some v else None)"

text \<open>
  Reading a property \<^verbatim>\<open>v.k\<close> of a value that is neither \<^verbatim>\<open>null\<close> nor
  \<^verbatim>\<open>undefined\<close>, for the property names this program reads: only an object has them.
\<close>

definition get_prop :: "jsval \<Rightarrow> string \<Rightarrow> jsval" where
  "get_prop v k =
     (case v of
        JObj kvs \<Rightarrow> (case map_of kvs k of Some x \<Rightarrow> x | None \<Rightarrow> JUndefined)
      | _ \<Rightarrow> JUndefined)"

definition nullish :: "jsval \<Rightarrow> bool" where
  "nullish v = (v = JUndefined \<or> v = JNull)"

text \<open>
  The platform around the component: the translation table of the current language
  (\<^verbatim>\<open>translations[language]\<close>, declared in \<^verbatim>\<open>./lib/translations\<close>) and JavaScript's
  conversion of a number to a string.
\<close>

record Platform =
  translation_table :: "string \<rightharpoonup> string"
  numberToString :: "rat \<Rightarrow> string"

text \<open>\<^verbatim>\<open>String(v)\<close>.\<close>

fun join_commas :: "string list \<Rightarrow> string" where
  "join_commas [] = []"
| "join_commas [x] = x"
| "join_commas (x # y # ys) = x @ '','' @ join_commas (y # ys)"

fun js_String :: "Platform \<Rightarrow> jsval \<Rightarrow> string" where
  "js_String pf JUndefined = ''undefined''"
| "js_String pf JNull = ''null''"
| "js_String pf (JBool b) = (if b then ''true'' else ''false'')"
| "js_String pf (JNum r) = numberToString pf r"
| "js_String pf (JStr s) = s"
| "js_String pf (JArr xs) =
     join_commas (map (\<lambda>x. if nullish x then [] else js_String pf x) xs)"
| "js_String pf (JObj kvs) = ''[object Object]''"

text \<open>
  The replacement text of one match of \<^verbatim>\<open>String.prototype.replace\<close> for a pattern
  without capture groups: \<^verbatim>\<open>$$\<close> is a dollar sign, \<^verbatim>\<open>$&\<close> the match, \<^verbatim>\<open>$`\<close> the
  text before it and \<^verbatim>\<open>$'\<close> the text after it.
\<close>

fun expand_replacement :: "string \<Rightarrow> string \<Rightarrow> string \<Rightarrow> string \<Rightarrow> string" where
  "expand_replacement matched preceding following [] = []"
| "expand_replacement matched preceding following [c] = [c]"
| "expand_replacement matched preceding following (c # d # r) =
     (if c = CHR ''$'' \<and> d = CHR ''$'' then CHR ''$'' # expand_replacement matched preceding following r
      else if c = CHR ''$'' \<and> d = CHR ''&'' then matched @ expand_replacement matched preceding following r
      else if c = CHR ''$'' \<and> d = CHR 0x60 then preceding @ expand_replacement matched preceding following r
      else if c = CHR ''$'' \<and> d = CHR 0x27 then following @ expand_replacement matched preceding following r
      else c # expand_replacement matched preceding following (d # r))"

text \<open>
  \<^verbatim>\<open>text.replace(new RegExp(pat, 'g'), rep)\<close> for a pattern that matches itself
  literally, as \<^verbatim>\<open>{{link}}\<close> does: \<open>seen\<close> is the text already passed.
\<close>

function replace_all :: "string \<Rightarrow> string \<Rightarrow> string \<Rightarrow> string \<Rightarrow> string" where
  "replace_all pat rep seen s =
     (if pat \<noteq> [] \<and> startsWith s pat then
        expand_replacement pat seen (drop (length pat) s) rep
          @ replace_all pat rep (seen @ pat) (drop (length pat) s)
      else
        (case s of
           [] \<Rightarrow> []
         | c # cs \<Rightarrow> c # replace_all pat rep (seen @ [c]) cs))"
  by pat_completeness auto
termination
proof (relation "measure (\<lambda>(pat, rep, seen, s). length s)")
  fix pat rep seen :: string and s :: string
  assume "pat \<noteq> [] \<and> startsWith s pat"
  then have "s \<noteq> []" "pat \<noteq> []"
    by (auto simp: startsWith_def)
  then show "((pat, rep, seen @ pat, drop (length pat) s), (pat, rep, seen, s))
               \<in> measure (\<lambda>(pat, rep, seen, s). length s)"
    by simp
qed auto

text \<open>
  The translation helper:
  \<^verbatim>\<open>
  let text = (translations[language] as any)[key] || key;
  if (params) {
      Object.keys(params).forEach(pKey => {
          const regex = new RegExp(`{{${pKey}}}`, 'g');
          text = text.replace(regex, String(params[pKey]));
      });
  }
  return text;
  \<close>
  The parameter names used in this program are plain words, so each pattern matches
  itself literally.
\<close>

definition t :: "Platform \<Rightarrow> string \<Rightarrow> (string \<times> jsval) list \<Rightarrow> string" where
  "t pf key params =
     foldl (\<lambda>text (pKey, v). replace_all (''{{'' @ pKey @ ''}}'') (js_String pf v) [] text)
       (case translation_table pf key of
          Some s \<Rightarrow> if s \<noteq> [] then s else key
        | None \<Rightarrow> key)
       params"

section \<open>The error classifier\<close>

text \<open>
  \<^verbatim>\<open>details?.find((d: any) => d['@type'] === 'type.googleapis.com/google.rpc.Help')\<close>.
  \<open>None\<close> is a \<^verbatim>\<open>TypeError\<close>: \<^verbatim>\<open>details\<close> has no \<^verbatim>\<open>find\<close> method unless it is an
  array, and a property of a \<^verbatim>\<open>null\<close> element cannot be read.
\<close>

fun find_help :: "jsval list \<Rightarrow> jsval option" where
  "find_help [] = Some JUndefined"
| "find_help (d # ds) =
     (if nullish d then None
      else if get_prop d ''@type'' = JStr ''type.googleapis.com/google.rpc.Help'' then Some d
      else find_help ds)"

definition helpLinkDetailsOf :: "jsval \<Rightarrow> jsval option" where
  "helpLinkDetailsOf details =
     (case details of
        JUndefined \<Rightarrow> Some JUndefined
      | JNull \<Rightarrow> Some JUndefined
      | JArr ds \<Rightarrow> find_help ds
      | _ \<Rightarrow> None)"

text \<open>\<^verbatim>\<open>v[0]\<close> for a value that is neither \<^verbatim>\<open>null\<close> nor \<^verbatim>\<open>undefined\<close>.\<close>

definition index0 :: "jsval \<Rightarrow> jsval" where
  "index0 v =
     (case v of
        JArr xs \<Rightarrow> (case xs of [] \<Rightarrow> JUndefined | x # _ \<Rightarrow> x)
      | JStr s \<Rightarrow> (case s of [] \<Rightarrow> JUndefined | c # _ \<Rightarrow> JStr [c])
      | JObj kvs \<Rightarrow> get_prop v ''0''
      | _ \<Rightarrow> JUndefined)"

text \<open>\<^verbatim>\<open>helpLinkDetails?.links?.[0]?.url\<close>.\<close>

definition helpLinkOf :: "jsval \<Rightarrow> jsval" where
  "helpLinkOf helpLinkDetails =
     (if nullish helpLinkDetails then JUndefined
      else let links = get_prop helpLinkDetails ''links'' in
        if nullish links then JUndefined
        else let first = index0 links in
          if nullish first then JUndefined else get_prop first ''url'')"

text \<open>
  The body of the \<^verbatim>\<open>try\<close> block of \<^verbatim>\<open>parseAndDisplayError\<close>, after a successful
  \<^verbatim>\<open>JSON.parse\<close>. \<open>Returned r\<close> is a \<^verbatim>\<open>return\<close> from the function, \<open>FellThrough\<close> the
  end of the block (no \<^verbatim>\<open>error\<close> property) or an exception, which the empty
  \<^verbatim>\<open>catch\<close> swallows: \<^verbatim>\<open>details.find\<close> can throw, and so can
  \<^verbatim>\<open>message?.toLowerCase()\<close> when \<^verbatim>\<open>message\<close> is not a string.
\<close>

datatype try_result = Returned string | FellThrough

definition classifyStructured :: "Platform \<Rightarrow> string \<Rightarrow> jsval \<Rightarrow> try_result" where
  "classifyStructured pf errorMessage errorObj =
     (let err = get_prop errorObj ''error'' in
      if \<not> truthy err then FellThrough
      else
        let code = get_prop err ''code''; message = get_prop err ''message'';
            status = get_prop err ''status''; details = get_prop err ''details''
        in
          if code = JNum 429 \<or> status = JStr ''RESOURCE_EXHAUSTED'' then
            (case helpLinkDetailsOf details of
               None \<Rightarrow> FellThrough
             | Some helpLinkDetails \<Rightarrow>
                 let helpLink = helpLinkOf helpLinkDetails
                 in Returned (t pf ''errorQuotaExceeded''
                      [(''link'', if truthy helpLink then helpLink
                                  else JStr ''https://ai.google.dev/gemini-api/docs/rate-limits'')]))
          else
            (case message of
               JStr m \<Rightarrow>
                 let lowerMessage = toLowerCase m in
                 if code = JNum 400 \<and> (includes_str lowerMessage ''api key not valid''
                                        \<or> includes_str lowerMessage ''permission denied'')
                 then Returned (t pf ''errorInvalidApiKey'' [])
                 else Returned (if m \<noteq> [] then m else errorMessage)
             | JUndefined \<Rightarrow> Returned errorMessage
             | JNull \<Rightarrow> Returned errorMessage
             | _ \<Rightarrow> FellThrough))"

text \<open>
  \<^verbatim>\<open>parseAndDisplayError(error)\<close>, as a function of \<^verbatim>\<open>error.message\<close> (\<open>None\<close> when
  the error has none).
\<close>

definition parseAndDisplayError :: "Platform \<Rightarrow> string option \<Rightarrow> string" where
  "parseAndDisplayError pf message =
     (let errorMessage = (case message of
                            Some m \<Rightarrow> if m \<noteq> [] then m else t pf ''errorUnknown'' []
                          | None \<Rightarrow> t pf ''errorUnknown'' []);
          structured =
            (if startsWith errorMessage ''{'' \<and> endsWith errorMessage ''}'' then
               (case JSON_parse errorMessage of
                  None \<Rightarrow> FellThrough
                | Some errorObj \<Rightarrow> classifyStructured pf errorMessage errorObj)
             else FellThrough)
      in case structured of
           Returned r \<Rightarrow> r
         | FellThrough \<Rightarrow>
             let lowerCaseMessage = toLowerCase errorMessage in
             if includes_str lowerCaseMessage ''api key not valid''
                \<or> includes_str lowerCaseMessage ''permission denied''
             then t pf ''errorInvalidApiKey'' []
             else if includes_str lowerCaseMessage ''api key is not configured''
             then t pf ''errorApiKeyNotConfigured'' []
             else if includes_str errorMessage ''AI did not return an image from your prompt.''
             then t pf ''errorImageGen'' []
             else errorMessage)"

section \<open>Data model\<close>

text \<open>
  \<^verbatim>\<open>SlideData\<close> and \<^verbatim>\<open>DesignPreferences\<close> are objects whose declarations live in
  \<^verbatim>\<open>./types\<close>; the handlers only spread them, read a few named properties
  (\<^verbatim>\<open>id\<close>, \<^verbatim>\<open>backgroundImage\<close>, \<^verbatim>\<open>visual_prompt\<close>, \<^verbatim>\<open>aspectRatio\<close>) and delete
  properties by name, so both are kept as objects. A \<^verbatim>\<open>Carousel\<close> is always built with
  the same six properties.
\<close>

type_synonym SlideData = js_object
type_synonym DesignPreferences = js_object

record Carousel =
  carousel_id :: string
  title :: string
  createdAt :: string
  slides :: "SlideData list"
  category :: string
  preferences :: DesignPreferences

datatype AppView = LOGIN | PROFILE_SETUP | DASHBOARD | GENERATOR | SETTINGS | TUTORIAL

record UserProfile =
  user_name :: string
  email :: string
  picture :: string
  niche :: "string list"
  profileComplete :: bool

text \<open>
  The \<^verbatim>\<open>useState\<close> cells that the modelled handlers read or write. \<open>apiKey\<close> is
  \<^verbatim>\<open>settings.apiKey\<close> (\<open>None\<close> when it is not set).
\<close>

record AppState =
  user :: "UserProfile option"
  apiKey :: "string option"
  view :: AppView
  carouselHistory :: "Carousel list"
  currentCarousel :: "Carousel option"
  selectedSlideId :: "string option"
  currentTopic :: string
  isGenerating :: bool
  isGeneratingImageForSlide :: "string option"
  generationMessage :: string
  error :: "string option"

text \<open>\<^verbatim>\<open>s.id === slideId\<close> for a slide object and a string.\<close>

definition has_id :: "string \<Rightarrow> SlideData \<Rightarrow> bool" where
  "has_id slideId s = (s ''id'' = Some (JStr slideId))"

section \<open>Mutators of the carousel session\<close>

text \<open>
  The write-back that several handlers pass to \<^verbatim>\<open>setCarouselHistory\<close>:
  \<^verbatim>\<open>
  prevHistory => {
      const index = prevHistory.findIndex(c => c.id === newCarousel.id);
      if (index !== -1) {
          const newHistory = [...prevHistory];
          newHistory[index] = newCarousel;
          return newHistory;
      }
      return prevHistory;
  }
  \<close>
\<close>

definition writeBack :: "Carousel \<Rightarrow> Carousel list \<Rightarrow> Carousel list" where
  "writeBack newCarousel prevHistory =
     (case findIndex (\<lambda>c. carousel_id c = carousel_id newCarousel) prevHistory of
        Some index \<Rightarrow> prevHistory[index := newCarousel]
      | None \<Rightarrow> prevHistory)"

text \<open>
  \<^verbatim>\<open>handleUpdateSlide(slideId, updates)\<close>: every slide with that id becomes
  \<^verbatim>\<open>{ ...s, ...updates }\<close>, the new carousel replaces the current one and is written
  back into the history. Nothing happens without a current carousel.
\<close>

definition handleUpdateSlide :: "string \<Rightarrow> js_object \<Rightarrow> AppState \<Rightarrow> AppState" where
  "handleUpdateSlide slideId updates st =
     (case currentCarousel st of
        None \<Rightarrow> st
      | Some prev \<Rightarrow>
          let updatedSlides = map (\<lambda>s. if has_id slideId s then s ++ updates else s) (slides prev);
              newCarousel = prev\<lparr>slides := updatedSlides\<rparr>
          in st\<lparr>carouselHistory := writeBack newCarousel (carouselHistory st),
                currentCarousel := Some newCarousel\<rparr>)"

text \<open>
  \<^verbatim>\<open>handleClearSlideOverrides(property)\<close>: deletes the property from a copy of every
  slide and stores the result as the current carousel only.
\<close>

definition handleClearSlideOverrides :: "string \<Rightarrow> AppState \<Rightarrow> AppState" where
  "handleClearSlideOverrides property st =
     (case currentCarousel st of
        None \<Rightarrow> st
      | Some prev \<Rightarrow>
          let updatedSlides = map (\<lambda>slide. slide(property := None)) (slides prev)
          in st\<lparr>currentCarousel := Some (prev\<lparr>slides := updatedSlides\<rparr>)\<rparr>)"

datatype direction = left | right

text \<open>
  \<^verbatim>\<open>handleMoveSlide(slideId, direction)\<close>: the index computation is done on integers, as
  \<^verbatim>\<open>index - 1\<close> can be \<^verbatim>\<open>-1\<close>; the destructuring assignment reads both elements first
  and then writes \<^verbatim>\<open>slides[index]\<close> and \<^verbatim>\<open>slides[newIndex]\<close> in that order.
\<close>

definition moveSlides :: "string \<Rightarrow> direction \<Rightarrow> SlideData list \<Rightarrow> SlideData list option" where
  "moveSlides slideId dir sl =
     (case findIndex (has_id slideId) sl of
        None \<Rightarrow> None
      | Some index \<Rightarrow>
          let newIndex = (if dir = left then int index - 1 else int index + 1)
          in if newIndex < 0 \<or> newIndex \<ge> int (length sl) then None
             else Some (sl[index := sl ! nat newIndex, nat newIndex := sl ! index]))"

definition handleMoveSlide :: "string \<Rightarrow> direction \<Rightarrow> AppState \<Rightarrow> AppState" where
  "handleMoveSlide slideId dir st =
     (case currentCarousel st of
        None \<Rightarrow> st
      | Some cur \<Rightarrow>
          (case moveSlides slideId dir (slides cur) of
             None \<Rightarrow> st
           | Some sl \<Rightarrow> st\<lparr>currentCarousel := Some (cur\<lparr>slides := sl\<rparr>)\<rparr>))"

text \<open>
  \<^verbatim>\<open>handleUpdateCarouselPreferences(updates, topicValue)\<close>. With a current carousel the
  preferences become \<^verbatim>\<open>{ ...prev.preferences, ...updates }\<close> and the carousel is
  written back into the history. Without one, a placeholder is made; its id is
  \<^verbatim>\<open>'temp-' + crypto.randomUUID()\<close>, its date \<^verbatim>\<open>new Date().toISOString()\<close>, and its
  preferences start from \<^verbatim>\<open>defaultSettings.brandKit\<close> (declared in
  \<^verbatim>\<open>./lib/constants\<close>); these three are arguments of the model.
\<close>

definition placeholderPreferences :: js_object where
  "placeholderPreferences = map_of
     [(''backgroundColor'', JStr ''#FFFFFF''),
      (''fontColor'', JStr ''#111827''),
      (''backgroundOpacity'', JNum 1),
      (''style'', JStr ''Minimalist''),
      (''font'', JStr ''Inter''),
      (''aspectRatio'', JStr ''1:1''),
      (''backgroundImage'', JUndefined),
      (''brandingText'', JStr []),
      (''brandingStyle'', JObj [(''color'', JStr ''#111827''), (''opacity'', JNum (3 / 4)),
          (''position'', JStr ''bottom-right''), (''fontSize'', JNum (7 / 10))]),
      (''headlineStyle'', JObj [(''fontSize'', JNum (7 / 5)), (''fontWeight'', JStr ''bold''),
          (''textAlign'', JStr ''center''),
          (''textStroke'', JObj [(''color'', JStr ''#000000''), (''width'', JNum 0)])]),
      (''bodyStyle'', JObj [(''fontSize'', JNum (4 / 5)), (''textAlign'', JStr ''center''),
          (''textStroke'', JObj [(''color'', JStr ''#000000''), (''width'', JNum 0)])]),
      (''slideNumberStyle'', JObj [(''show'', JBool False), (''color'', JStr ''#FFFFFF''),
          (''opacity'', JNum (4 / 5)), (''position'', JStr ''top-right''),
          (''fontSize'', JNum (7 / 10))])]"

definition handleUpdateCarouselPreferences ::
  "string \<Rightarrow> string \<Rightarrow> js_object \<Rightarrow> js_object \<Rightarrow> string \<Rightarrow> AppState \<Rightarrow> AppState" where
  "handleUpdateCarouselPreferences uuid now defaultBrandKit updates topicValue st =
     (case currentCarousel st of
        Some prev \<Rightarrow>
          let newCarousel = prev\<lparr>preferences := preferences prev ++ updates\<rparr>
          in st\<lparr>carouselHistory := writeBack newCarousel (carouselHistory st),
                currentCarousel := Some newCarousel\<rparr>
      | None \<Rightarrow>
          st\<lparr>currentCarousel := Some
               \<lparr>carousel_id = ''temp-'' @ uuid,
                title = topicValue,
                createdAt = now,
                slides = [],
                category = (case user st of
                              None \<Rightarrow> ''General''
                            | Some u \<Rightarrow>
                                (case niche u of
                                   [] \<Rightarrow> ''General''
                                 | n # _ \<Rightarrow> if n \<noteq> [] then n else ''General'')),
                preferences = defaultBrandKit ++ placeholderPreferences ++ updates\<rparr>\<rparr>)"

section \<open>View router\<close>

text \<open>
  \<^verbatim>\<open>
  const goToDashboard = () => {
      if (view === 'LOGIN' || view === 'PROFILE_SETUP') return;
      if (currentCarousel) {
          // Save the latest changes to history before switching views
          setCarouselHistory(prev => { ... });
      }
      setCurrentCarousel(null);
      setView('DASHBOARD');
  }
  \<close>
  The updater is the write-back above.
\<close>

definition goToDashboard :: "AppState \<Rightarrow> AppState" where
  "goToDashboard st =
     (if view st = LOGIN \<or> view st = PROFILE_SETUP then st
      else
        let hist = (case currentCarousel st of
                      Some cur \<Rightarrow> writeBack cur (carouselHistory st)
                    | None \<Rightarrow> carouselHistory st)
        in st\<lparr>carouselHistory := hist, currentCarousel := None, view := DASHBOARD\<rparr>)"

section \<open>History persistence\<close>

text \<open>
  What \<^verbatim>\<open>localStorage.setItem\<close> throws: a \<^verbatim>\<open>DOMException\<close> with a name, a numeric
  legacy code and a message.
\<close>

record StorageError =
  err_name :: string
  err_code :: int
  err_message :: string

text \<open>
  \<^verbatim>\<open>
  error.name === 'QuotaExceededError' ||
  (error.code && (error.code === 22 || error.code === 1014)) ||
  (error.message && error.message.toLowerCase().includes('quota'))
  \<close>
\<close>

definition isQuotaError :: "StorageError \<Rightarrow> bool" where
  "isQuotaError e =
     (err_name e = ''QuotaExceededError''
      \<or> (err_code e \<noteq> 0 \<and> (err_code e = 22 \<or> err_code e = 1014))
      \<or> (err_message e \<noteq> [] \<and> includes_str (toLowerCase (err_message e)) ''quota''))"

text \<open>
  The sanitizer of one slide:
  \<^verbatim>\<open>
  const newSlide = { ...slide };
  if (newSlide.backgroundImage && newSlide.backgroundImage.startsWith('data:video')) {
      delete newSlide.backgroundImage;
  }
  return newSlide;
  \<close>
  \<open>None\<close> is the \<^verbatim>\<open>TypeError\<close> of calling \<^verbatim>\<open>startsWith\<close> on a truthy value that is
  not a string (the declared type of the property is a string).
\<close>

definition sanitizeSlide :: "SlideData \<Rightarrow> SlideData option" where
  "sanitizeSlide slide =
     (case slide ''backgroundImage'' of
        None \<Rightarrow> Some slide
      | Some v \<Rightarrow>
          if \<not> truthy v then Some slide
          else
            (case v of
               JStr b \<Rightarrow>
                 if startsWith b ''data:video'' then Some (slide(''backgroundImage'' := None))
                 else Some slide
             | _ \<Rightarrow> None))"

definition sanitizeCarousel :: "Carousel \<Rightarrow> Carousel option" where
  "sanitizeCarousel carousel =
     map_option (\<lambda>sl. carousel\<lparr>slides := sl\<rparr>) (those (map sanitizeSlide (slides carousel)))"

definition sanitizeHistory :: "Carousel list \<Rightarrow> Carousel list option" where
  "sanitizeHistory historyToSave = those (map sanitizeCarousel historyToSave)"

text \<open>
  How one run of the save routine ends: the snapshot that was stored, the size error
  shown to the user, an error that is only logged (an unknown storage error, or a
  failure to store the empty list), or the exception of the sanitizer.
\<close>

datatype save_outcome =
    Stored "Carousel list"
  | HistoryTooLarge
  | UnknownStorageError
  | ClearFailed
  | SanitizeThrew

text \<open>
  \<^verbatim>\<open>saveHistoryWithAutoTrim(historyToSave)\<close>. The first argument stands for
  \<^verbatim>\<open>localStorage.setItem(HISTORY_STORAGE_KEY, JSON.stringify(snapshot))\<close>: \<open>None\<close> when
  the write succeeds, the exception otherwise (\<^verbatim>\<open>'[]'\<close> is the serialized empty
  list). The result is the list of the arguments \<^verbatim>\<open>historyToSave\<close> for which a write
  was attempted, in order, and the outcome. \<^verbatim>\<open>historyToSave.slice(0, -1)\<close> is
  \<^const>\<open>butlast\<close>.
\<close>

function saveHistoryWithAutoTrim ::
  "(Carousel list \<Rightarrow> StorageError option) \<Rightarrow> Carousel list
     \<Rightarrow> Carousel list list \<times> save_outcome" where
  "saveHistoryWithAutoTrim setItem historyToSave =
     (if length historyToSave = 0 then
        (case setItem [] of
           None \<Rightarrow> ([historyToSave], Stored [])
         | Some e \<Rightarrow> ([historyToSave], ClearFailed))
      else
        (case sanitizeHistory historyToSave of
           None \<Rightarrow> ([], SanitizeThrew)
         | Some sanitizedHistory \<Rightarrow>
             (case setItem sanitizedHistory of
                None \<Rightarrow> ([historyToSave], Stored sanitizedHistory)
              | Some e \<Rightarrow>
                  if isQuotaError e then
                    (if length historyToSave > 1 then
                       (case saveHistoryWithAutoTrim setItem (butlast historyToSave) of
                          (attempts, outcome) \<Rightarrow> (historyToSave # attempts, outcome))
                     else ([historyToSave], HistoryTooLarge))
                  else ([historyToSave], UnknownStorageError))))"
  by pat_completeness auto
termination
  by (relation "measure (\<lambda>(setItem, historyToSave). length historyToSave)") auto

text \<open>
  The effect that runs after the history changed: it saves the history and, on the
  size error, calls \<^verbatim>\<open>setError(t('errorHistoryTooLarge'))\<close>. The second component is
  the snapshot under the storage key (\<open>None\<close> when the key is absent). The result is
  \<open>None\<close> when the effect throws.
\<close>

definition historyEffect ::
  "Platform \<Rightarrow> (Carousel list \<Rightarrow> StorageError option) \<Rightarrow> AppState \<times> Carousel list option
     \<Rightarrow> (AppState \<times> Carousel list option) option" where
  "historyEffect pf setItem ss =
     (case ss of (st, storage) \<Rightarrow>
        (case snd (saveHistoryWithAutoTrim setItem (carouselHistory st)) of
           Stored snapshot \<Rightarrow> Some (st, Some snapshot)
         | HistoryTooLarge \<Rightarrow> Some (st\<lparr>error := Some (t pf ''errorHistoryTooLarge'' [])\<rparr>, storage)
         | UnknownStorageError \<Rightarrow> Some (st, storage)
         | ClearFailed \<Rightarrow> Some (st, storage)
         | SanitizeThrew \<Rightarrow> None))"


section \<open>Generation orchestrator\<close>







section \<open>Inline video payloads\<close>





section \<open>Vocabulary of the classifier claim\<close>

text \<open>
  The structured error of the classifier claim, and what makes a plain message
  unrecognized: it is not empty (the classifier replaces an empty message by
  \<^verbatim>\<open>t('errorUnknown')\<close>), it is not wrapped in braces, and it contains none of the four
  texts the classifier looks for.
\<close>

definition quotaErrorJson :: string where
  \<open>quotaErrorJson = ''{"error":{"code":429,"status":"RESOURCE_EXHAUSTED"}}''\<close>

definition unrecognizedMessage :: "string \<Rightarrow> bool" where
  "unrecognizedMessage m =
     (m \<noteq> []
      \<and> \<not> (startsWith m ''{'' \<and> endsWith m ''}'')
      \<and> \<not> includes_str (toLowerCase m) ''api key not valid''
      \<and> \<not> includes_str (toLowerCase m) ''permission denied''
      \<and> \<not> includes_str (toLowerCase m) ''api key is not configured''
      \<and> \<not> includes_str m ''AI did not return an image from your prompt.'')"

section \<open>Example values\<close>

text \<open>A carousel of three slides, a second history entry and a state that edits the first.\<close>

definition ex_slide_a :: SlideData where
  "ex_slide_a = [''id'' \<mapsto> JStr ''a'', ''headline'' \<mapsto> JStr ''First'']"
definition ex_slide_b :: SlideData where
  "ex_slide_b = [''id'' \<mapsto> JStr ''b'', ''headline'' \<mapsto> JStr ''Second'', ''fontColor'' \<mapsto> JStr ''#FF0000'']"
definition ex_slide_c :: SlideData where
  "ex_slide_c = [''id'' \<mapsto> JStr ''c'', ''headline'' \<mapsto> JStr ''Third'']"
definition ex_carousel :: Carousel where
  "ex_carousel = \<lparr>carousel_id = ''c1'', title = ''Coffee Brewing'',
     createdAt = ''2025-01-01T00:00:00.000Z'', slides = [ex_slide_a, ex_slide_b, ex_slide_c],
     category = ''Food'', preferences = [''fontColor'' \<mapsto> JStr ''#111827'']\<rparr>"
definition ex_other :: Carousel where
  "ex_other = \<lparr>carousel_id = ''c2'', title = ''Tea'',
     createdAt = ''2024-12-31T00:00:00.000Z'', slides = [],
     category = ''Food'', preferences = Map.empty\<rparr>"
definition ex_state :: AppState where
  "ex_state = \<lparr>user = None, apiKey = Some ''key'', view = GENERATOR,
     carouselHistory = [ex_other, ex_carousel], currentCarousel = Some ex_carousel,
     selectedSlideId = None, currentTopic = ''Coffee Brewing'', isGenerating = False,
     isGeneratingImageForSlide = None, generationMessage = [], error = None\<rparr>"

text \<open>
  A state in the generator with no current carousel, and the state after one change of
  the preferences there, which makes the placeholder carousel.
\<close>

definition ex_fresh_state :: AppState where
  "ex_fresh_state = \<lparr>user = None, apiKey = Some ''key'', view = GENERATOR,
     carouselHistory = [ex_other], currentCarousel = None,
     selectedSlideId = None, currentTopic = ''Tea time'', isGenerating = False,
     isGeneratingImageForSlide = None, generationMessage = [], error = None\<rparr>"

definition ex_placeholder_state :: AppState where
  "ex_placeholder_state =
     handleUpdateCarouselPreferences ''1'' ''2025-01-02T00:00:00.000Z'' Map.empty
       [''font'' \<mapsto> JStr ''Lora''] ''Tea time'' ex_fresh_state"

text \<open>
  Storage behaviours (room for one carousel only, no room at all, room for everything),
  a platform, and a carousel with inline video both in a slide and in its preferences.
  The number conversion of the example platform prints whole numbers; the examples
  convert no number.
\<close>

definition ex_quota_error :: StorageError where
  "ex_quota_error = \<lparr>err_name = ''QuotaExceededError'', err_code = 22,
     err_message = ''The quota has been exceeded.''\<rparr>"

definition ex_room_for_one :: "Carousel list \<Rightarrow> StorageError option" where
  "ex_room_for_one snapshot = (if length snapshot \<le> 1 then None else Some ex_quota_error)"

definition ex_no_room :: "Carousel list \<Rightarrow> StorageError option" where
  "ex_no_room snapshot = Some ex_quota_error"

function dec_nat :: "nat \<Rightarrow> string" where
  "dec_nat n = (if n < 10 then [char_of (48 + n)] else dec_nat (n div 10) @ [char_of (48 + n mod 10)])"
  by pat_completeness auto
termination
  by (relation "measure (\<lambda>n. n)") auto

definition ex_numberToString :: "rat \<Rightarrow> string" where
  "ex_numberToString r = (if r < 0 then ''-'' @ dec_nat (nat (- \<lfloor>r\<rfloor>)) else dec_nat (nat \<lfloor>r\<rfloor>))"

definition ex_platform :: Platform where
  "ex_platform = \<lparr>translation_table = map_of
       [(''errorQuotaExceeded'', ''You exceeded your quota. See {{link}} for details.''),
        (''errorInvalidApiKey'', ''Your API key is not valid.''),
        (''errorHistoryTooLarge'', ''This carousel is too large to be saved.''),
        (''errorUnknown'', ''An unknown error occurred.'')],
     numberToString = ex_numberToString\<rparr>"

definition ex_accept_all :: "Carousel list \<Rightarrow> StorageError option" where
  "ex_accept_all snapshot = None"


text \<open>
  A signed-in user with a configured key in front of an empty generator, and
  collaborators that answer with two slides, an image for the first slide only, and
  the identifiers \<^verbatim>\<open>uuid-0\<close>, \<^verbatim>\<open>uuid-1\<close>, ...
\<close>

definition ex_user :: UserProfile where
  "ex_user = \<lparr>user_name = ''Ada'', email = ''ada@example.org'', picture = [],
     niche = [''Food''], profileComplete = True\<rparr>"






text \<open>The state of a signed-in user on the dashboard with an empty history.\<close>

definition ex_empty_state :: AppState where
  "ex_empty_state = \<lparr>user = Some ex_user, apiKey = Some ''key'', view = DASHBOARD,
     carouselHistory = [], currentCarousel = None,
     selectedSlideId = None, currentTopic = [], isGenerating = False,
     isGeneratingImageForSlide = None, generationMessage = [], error = None\<rparr>"

section \<open>Auxiliary lemmas\<close>

lemma findIndex_None_iff: "findIndex P xs = None \<longleftrightarrow> (\<forall>x\<in>set xs. \<not> P x)"
  by (induction xs) auto

lemma findIndex_Some_iff:
  "findIndex P xs = Some i \<longleftrightarrow> i < length xs \<and> P (xs ! i) \<and> (\<forall>k<i. \<not> P (xs ! k))"
proof (induction xs arbitrary: i)
  case Nil
  then show ?case by simp
next
  case (Cons x xs)
  show ?case
  proof (cases "P x")
    case True
    then show ?thesis by (cases i) auto
  next
    case False
    show ?thesis
    proof (cases i)
      case 0
      with False show ?thesis by auto
    next
      case (Suc j)
      have "(\<forall>k<Suc j. \<not> P ((x # xs) ! k)) \<longleftrightarrow> (\<forall>k<j. \<not> P (xs ! k))"
        using False by (auto simp: nth_Cons split: nat.splits) 
      with False Suc Cons.IH[of j] show ?thesis by auto
    qed
  qed
qed

lemma length_writeBack: "length (writeBack c h) = length h"
  by (simp add: writeBack_def split: option.splits)

lemma writeBack_other:
  "carousel_id (h ! i) \<noteq> carousel_id c \<Longrightarrow> writeBack c h ! i = h ! i"
proof (cases "findIndex (\<lambda>x. carousel_id x = carousel_id c) h")
  case None
  then show ?thesis by (simp add: writeBack_def)
next
  case (Some j)
  assume ne: "carousel_id (h ! i) \<noteq> carousel_id c"
  from Some have "carousel_id (h ! j) = carousel_id c"
    by (simp add: findIndex_Some_iff)
  with ne have "j \<noteq> i" by auto
  with Some show ?thesis by (simp add: writeBack_def)
qed

lemma writeBack_first:
  "i < length h \<Longrightarrow> carousel_id (h ! i) = carousel_id c 
    \<Longrightarrow> \<forall>k<i. carousel_id (h ! k) \<noteq> carousel_id c \<Longrightarrow> writeBack c h ! i = c"
proof -
  assume a: "i < length h" "carousel_id (h ! i) = carousel_id c" "\<forall>k<i. carousel_id (h ! k) \<noteq> carousel_id c"
  then have "findIndex (\<lambda>x. carousel_id x = carousel_id c) h = Some i"
    by (simp add: findIndex_Some_iff)
  with a show ?thesis by (simp add: writeBack_def)
qed

lemma writeBack_absent:
  "\<forall>x\<in>set h. carousel_id x \<noteq> carousel_id c \<Longrightarrow> writeBack c h = h"
  by (simp add: writeBack_def findIndex_None_iff[THEN iffD2])

lemma writeBack_distinct:
  assumes "distinct (map carousel_id h)" "i < length h" "carousel_id (h ! i) = carousel_id c"
  shows "writeBack c h ! i = c"
proof (rule writeBack_first[OF assms(2,3)])
  show "\<forall>k<i. carousel_id (h ! k) \<noteq> carousel_id c"
  proof (intro allI impI)
    fix k assume "k < i"
    with assms have "map carousel_id h ! k \<noteq> map carousel_id h ! i"
      by (simp add: nth_eq_iff_index_eq del: nth_map)
    with assms \<open>k < i\<close> show "carousel_id (h ! k) \<noteq> carousel_id c" by simp
  qed
qed

lemma ex_slides_distinct:
  "ex_slide_a \<noteq> ex_slide_b" "ex_slide_b \<noteq> ex_slide_c" "ex_slide_a \<noteq> ex_slide_c"
proof -
  have "ex_slide_a ''id'' \<noteq> ex_slide_b ''id''" "ex_slide_b ''id'' \<noteq> ex_slide_c ''id''"
       "ex_slide_a ''id'' \<noteq> ex_slide_c ''id''"
    by (simp_all add: ex_slide_a_def ex_slide_b_def ex_slide_c_def)
  then show "ex_slide_a \<noteq> ex_slide_b" "ex_slide_b \<noteq> ex_slide_c" "ex_slide_a \<noteq> ex_slide_c"
    by auto
qed

declare toLowerCase.simps [simp del] parse_chars.simps [simp del]

declare saveHistoryWithAutoTrim.simps [simp del]

lemma those_eq_Some: "those xs = Some ys \<longleftrightarrow> xs = map Some ys"
  by (induction xs arbitrary: ys) (auto split: option.splits)

lemma sanitizeHistory_take:
  "sanitizeHistory h = Some sh \<Longrightarrow> sanitizeHistory (take m h) = Some (take m sh)"
  by (simp add: sanitizeHistory_def those_eq_Some flip: take_map)

lemma sanitizeHistory_length:
  "sanitizeHistory h = Some sh \<Longrightarrow> length sh = length h"
  by (auto simp: sanitizeHistory_def those_eq_Some dest: arg_cong [where f = length])

lemma sanitizeHistory_butlast:
  "sanitizeHistory h = Some sh \<Longrightarrow> sanitizeHistory (butlast h) = Some (butlast sh)"
  using sanitizeHistory_take [of h sh "length h - 1"] sanitizeHistory_length [of h sh]
  by (simp add: butlast_conv_take)

lemma save_empty:
  "saveHistoryWithAutoTrim setItem [] =
     (case setItem [] of None \<Rightarrow> ([[]], Stored []) | Some e \<Rightarrow> ([[]], ClearFailed))"
  by (subst saveHistoryWithAutoTrim.simps) simp

lemma save_threw:
  "h \<noteq> [] \<Longrightarrow> sanitizeHistory h = None \<Longrightarrow> saveHistoryWithAutoTrim setItem h = ([], SanitizeThrew)"
  by (subst saveHistoryWithAutoTrim.simps) simp

lemma save_stored:
  "h \<noteq> [] \<Longrightarrow> sanitizeHistory h = Some sh \<Longrightarrow> setItem sh = None
     \<Longrightarrow> saveHistoryWithAutoTrim setItem h = ([h], Stored sh)"
  by (subst saveHistoryWithAutoTrim.simps) simp

lemma save_unknown:
  "h \<noteq> [] \<Longrightarrow> sanitizeHistory h = Some sh \<Longrightarrow> setItem sh = Some e \<Longrightarrow> \<not> isQuotaError e
     \<Longrightarrow> saveHistoryWithAutoTrim setItem h = ([h], UnknownStorageError)"
  by (subst saveHistoryWithAutoTrim.simps) simp

lemma save_too_large:
  "length h = 1 \<Longrightarrow> sanitizeHistory h = Some sh \<Longrightarrow> setItem sh = Some e \<Longrightarrow> isQuotaError e
     \<Longrightarrow> saveHistoryWithAutoTrim setItem h = ([h], HistoryTooLarge)"
  by (subst saveHistoryWithAutoTrim.simps) simp

lemma save_retry:
  "1 < length h \<Longrightarrow> sanitizeHistory h = Some sh \<Longrightarrow> setItem sh = Some e \<Longrightarrow> isQuotaError e
     \<Longrightarrow> saveHistoryWithAutoTrim setItem h =
           (h # fst (saveHistoryWithAutoTrim setItem (butlast h)),
            snd (saveHistoryWithAutoTrim setItem (butlast h)))"
  by (subst saveHistoryWithAutoTrim.simps) (auto split: prod.splits)

lemma save_attempts:
  "length (fst (saveHistoryWithAutoTrim setItem h)) \<le> max 1 (length h)
   \<and> (\<forall>j<length (fst (saveHistoryWithAutoTrim setItem h)).
         fst (saveHistoryWithAutoTrim setItem h) ! j = take (length h - j) h)"
proof (induction h rule: rev_induct)
  case Nil
  show ?case by (simp add: save_empty split: option.splits)
next
  case (snoc x xs)
  let ?h = "xs @ [x]"
  have ne: "?h \<noteq> []" by simp
  show ?case
  proof (cases "sanitizeHistory ?h")
    case None
    with ne show ?thesis by (simp add: save_threw)
  next
    case (Some sh)
    show ?thesis
    proof (cases "setItem sh")
      case None
      with Some ne show ?thesis by (simp add: save_stored)
    next
      case (Some e)
      note e = this
      show ?thesis
      proof (cases "isQuotaError e")
        case False
        with e \<open>sanitizeHistory ?h = Some sh\<close> ne show ?thesis
          by (simp add: save_unknown)
      next
        case True
        show ?thesis
        proof (cases "xs = []")
          case True
          with e \<open>sanitizeHistory ?h = Some sh\<close> \<open>isQuotaError e\<close> show ?thesis
            by (simp add: save_too_large)
        next
          case False
          then have l: "1 < length ?h" by (cases xs) auto
          have r: "saveHistoryWithAutoTrim setItem ?h =
                     (?h # fst (saveHistoryWithAutoTrim setItem xs),
                      snd (saveHistoryWithAutoTrim setItem xs))"
            using save_retry [of ?h sh setItem e] l \<open>sanitizeHistory ?h = Some sh\<close> e True
            by simp
          from False have m: "max 1 (length xs) = length xs" by (cases xs) auto
          have "\<forall>j<length (fst (saveHistoryWithAutoTrim setItem ?h)).
                  fst (saveHistoryWithAutoTrim setItem ?h) ! j = take (length ?h - j) ?h"
          proof (intro allI impI)
            fix j assume j: "j < length (fst (saveHistoryWithAutoTrim setItem ?h))"
            show "fst (saveHistoryWithAutoTrim setItem ?h) ! j = take (length ?h - j) ?h"
            proof (cases j)
              case 0
              then show ?thesis by (simp add: r)
            next
              case (Suc j')
              with j have "j' < length (fst (saveHistoryWithAutoTrim setItem xs))"
                by (simp add: r)
              with snoc have "fst (saveHistoryWithAutoTrim setItem xs) ! j' = take (length xs - j') xs"
                by simp
              with Suc show ?thesis by (simp add: r)
            qed
          qed
          moreover have "length (fst (saveHistoryWithAutoTrim setItem ?h)) \<le> max 1 (length ?h)"
            using snoc m by (simp add: r)
          ultimately show ?thesis by blast
        qed
      qed
    qed
  qed
qed


lemma save_trace:
  assumes "h \<noteq> []" and "sanitizeHistory h = Some sh"
    and quota: "\<forall>x e. setItem x = Some e \<longrightarrow> isQuotaError e"
  shows "\<exists>k<length h.
           length (fst (saveHistoryWithAutoTrim setItem h)) = Suc k
         \<and> (\<forall>j<k. setItem (take (length h - j) sh) \<noteq> None)
         \<and> ((setItem (take (length h - k) sh) = None
               \<and> snd (saveHistoryWithAutoTrim setItem h) = Stored (take (length h - k) sh))
            \<or> (Suc k = length h \<and> setItem (take (length h - k) sh) \<noteq> None
               \<and> snd (saveHistoryWithAutoTrim setItem h) = HistoryTooLarge))"
  using assms(1,2)
proof (induction h arbitrary: sh rule: rev_nonempty_induct)
  case (single x)
  then have len: "length sh = 1" using sanitizeHistory_length [of "[x]" sh] by simp
  show ?case
  proof (cases "setItem sh")
    case None
    with single len show ?thesis by (simp add: save_stored)
  next
    case (Some e)
    with quota have "isQuotaError e" by blast
    with Some single len show ?thesis by (simp add: save_too_large)
  qed
next
  case (snoc x xs)
  let ?h = "xs @ [x]"
  have len: "length sh = Suc (length xs)"
    using sanitizeHistory_length [OF snoc.prems] by simp
  have sx: "sanitizeHistory xs = Some (butlast sh)"
    using sanitizeHistory_butlast [OF snoc.prems] by simp
  show ?case
  proof (cases "setItem sh")
    case None
    with snoc.prems len show ?thesis by (simp add: save_stored)
  next
    case (Some e)
    with quota have q: "isQuotaError e" by blast
    from snoc.hyps have l: "1 < length ?h" by (cases xs) auto
    have r: "saveHistoryWithAutoTrim setItem ?h =
               (?h # fst (saveHistoryWithAutoTrim setItem xs),
                snd (saveHistoryWithAutoTrim setItem xs))"
      using save_retry [of ?h sh setItem e] l snoc.prems Some q by simp
    from snoc.IH [OF sx] obtain k where k: "k < length xs"
      "length (fst (saveHistoryWithAutoTrim setItem xs)) = Suc k"
      "\<forall>j<k. setItem (take (length xs - j) (butlast sh)) \<noteq> None"
      "(setItem (take (length xs - k) (butlast sh)) = None
          \<and> snd (saveHistoryWithAutoTrim setItem xs) = Stored (take (length xs - k) (butlast sh)))
       \<or> (Suc k = length xs \<and> setItem (take (length xs - k) (butlast sh)) \<noteq> None
          \<and> snd (saveHistoryWithAutoTrim setItem xs) = HistoryTooLarge)"
      by blast
    have tb: "\<And>j. take (length xs - j) (butlast sh) = take (length ?h - Suc j) sh"
      using len by (simp add: take_butlast)
    have a: "Suc k < length ?h" using k(1) by simp
    have b: "length (fst (saveHistoryWithAutoTrim setItem ?h)) = Suc (Suc k)"
      using k(2) by (simp add: r)
    have c: "\<forall>j<Suc k. setItem (take (length ?h - j) sh) \<noteq> None"
    proof (intro allI impI)
      fix j assume "j < Suc k"
      show "setItem (take (length ?h - j) sh) \<noteq> None"
      proof (cases j)
        case 0
        with Some len show ?thesis by simp
      next
        case (Suc j')
        with \<open>j < Suc k\<close> k(3) have "setItem (take (length xs - j') (butlast sh)) \<noteq> None"
          by simp
        then have "setItem (take (length ?h - Suc j') sh) \<noteq> None" by (metis tb)
        with Suc show ?thesis by blast
      qed
    qed
    have d: "(setItem (take (length ?h - Suc k) sh) = None
               \<and> snd (saveHistoryWithAutoTrim setItem ?h) = Stored (take (length ?h - Suc k) sh))
            \<or> (Suc (Suc k) = length ?h \<and> setItem (take (length ?h - Suc k) sh) \<noteq> None
               \<and> snd (saveHistoryWithAutoTrim setItem ?h) = HistoryTooLarge)"
      using k(4) by (simp only: tb r snd_conv) auto
    from a b c d show ?thesis by blast
  qed
qed








lemma ex_history_sanitized:
  "sanitizeHistory [ex_other, ex_carousel] = Some [ex_other, ex_carousel]"
  by (simp add: sanitizeHistory_def sanitizeCarousel_def sanitizeSlide_def ex_other_def
      ex_carousel_def ex_slide_a_def ex_slide_b_def ex_slide_c_def)

lemma ex_save_room_for_one:
  "saveHistoryWithAutoTrim ex_room_for_one [ex_other, ex_carousel]
     = ([[ex_other, ex_carousel], [ex_other]], Stored [ex_other])"
proof -
  have q: "isQuotaError ex_quota_error"
    by (simp add: ex_quota_error_def isQuotaError_def)
  have s1: "sanitizeHistory [ex_other] = Some [ex_other]"
    using sanitizeHistory_butlast [OF ex_history_sanitized] by simp
  have r1: "saveHistoryWithAutoTrim ex_room_for_one [ex_other] = ([[ex_other]], Stored [ex_other])"
    using save_stored [of "[ex_other]" "[ex_other]" ex_room_for_one] s1
    by (simp add: ex_room_for_one_def)
  show ?thesis
    using save_retry [of "[ex_other, ex_carousel]" "[ex_other, ex_carousel]" ex_room_for_one
        ex_quota_error] ex_history_sanitized q r1
    by (simp add: ex_room_for_one_def)
qed




declare dec_nat.simps [simp del]


lemma quotaErrorJson_parsed:
  "JSON_parse quotaErrorJson
     = Some (JObj [(''error'', JObj [(''code'', JNum 429), (''status'', JStr ''RESOURCE_EXHAUSTED'')])])"
  unfolding quotaErrorJson_def by code_simp

lemma quotaErrorJson_braces:
  "quotaErrorJson \<noteq> [] \<and> startsWith quotaErrorJson ''{'' \<and> endsWith quotaErrorJson ''}''"
  unfolding quotaErrorJson_def by code_simp

lemma invalid_key_lower:
  "includes_str (toLowerCase ''API key not valid'') ''api key not valid''"
  by code_simp

lemma ex_message_unrecognized: "unrecognizedMessage ''Failed to fetch''"
  unfolding unrecognizedMessage_def by code_simp

lemma t_errorUnknown: "t ex_platform ''errorUnknown'' [] = ''An unknown error occurred.''"
  by (simp add: t_def ex_platform_def)

lemma unknown_text_unrecognized: "unrecognizedMessage ''An unknown error occurred.''"
  unfolding unrecognizedMessage_def by code_simp

lemma unrecognized_unchanged:
  "unrecognizedMessage m \<Longrightarrow> parseAndDisplayError pf (Some m) = m"
  unfolding parseAndDisplayError_def unrecognizedMessage_def by auto

lemma empty_message_replaced:
  "parseAndDisplayError pf (Some []) = parseAndDisplayError pf (Some (t pf ''errorUnknown'' []))"
proof -
  have "t pf ''errorUnknown'' [] \<noteq> []"
    by (simp add: t_def split: option.splits)
  then show ?thesis
    unfolding parseAndDisplayError_def by (simp only: option.case list.simps if_False if_True simp_thms)
qed


section \<open>Reordering slides\<close>

text \<open>
  Claim C5. With a current carousel, when the first slide with the given id is at index
  \<open>i\<close> and its neighbour in the given direction is at an index \<open>j\<close> of the list,
  \<^verbatim>\<open>handleMoveSlide\<close> only replaces the slide list of the current carousel: the new
  list has the same length, holds at \<open>i\<close> and \<open>j\<close> the old slides at \<open>j\<close> and \<open>i\<close>,
  and is unchanged at every other index. When no slide has the id, or the neighbour
  would lie before the first or after the last slide, the state is unchanged.
\<close>

theorem handleMoveSlide_swaps_adjacent:
  assumes cur: "currentCarousel st = Some cur"
  shows "(\<forall>i j. i < length (slides cur) \<and> has_id slideId (slides cur ! i)
              \<and> (\<forall>k<i. \<not> has_id slideId (slides cur ! k))
              \<and> j < length (slides cur)
              \<and> int j = (if dir = left then int i - 1 else int i + 1) \<longrightarrow>
            (\<exists>sl. handleMoveSlide slideId dir st = st\<lparr>currentCarousel := Some (cur\<lparr>slides := sl\<rparr>)\<rparr>
                \<and> length sl = length (slides cur)
                \<and> sl ! i = slides cur ! j \<and> sl ! j = slides cur ! i
                \<and> (\<forall>k<length sl. k \<noteq> i \<and> k \<noteq> j \<longrightarrow> sl ! k = slides cur ! k)))
       \<and> ((\<forall>s\<in>set (slides cur). \<not> has_id slideId s) \<longrightarrow> handleMoveSlide slideId dir st = st)
       \<and> (\<forall>i. i < length (slides cur) \<and> has_id slideId (slides cur ! i)
              \<and> (\<forall>k<i. \<not> has_id slideId (slides cur ! k))
              \<and> (if dir = left then i = 0 else Suc i = length (slides cur)) \<longrightarrow>
            handleMoveSlide slideId dir st = st)"
proof (intro conjI allI impI)
  fix i j
  assume a: "i < length (slides cur) \<and> has_id slideId (slides cur ! i)
              \<and> (\<forall>k<i. \<not> has_id slideId (slides cur ! k))
              \<and> j < length (slides cur)
              \<and> int j = (if dir = left then int i - 1 else int i + 1)"
  then have fi: "findIndex (has_id slideId) (slides cur) = Some i"
    by (simp add: findIndex_Some_iff)
  from a have ij: "i \<noteq> j" by (auto split: if_splits)
  let ?sl = "(slides cur)[i := slides cur ! j, j := slides cur ! i]"
  from a have nj: "nat (if dir = left then int i - 1 else int i + 1) = j" by linarith 
  have "handleMoveSlide slideId dir st = st\<lparr>currentCarousel := Some (cur\<lparr>slides := ?sl\<rparr>)\<rparr>"
    using a cur fi nj by (simp add: handleMoveSlide_def moveSlides_def Let_def)
  moreover have "length ?sl = length (slides cur)" by simp
  moreover have "?sl ! i = slides cur ! j" using a ij by simp
  moreover have "?sl ! j = slides cur ! i" using a by simp
  moreover have "\<forall>k<length ?sl. k \<noteq> i \<and> k \<noteq> j \<longrightarrow> ?sl ! k = slides cur ! k" by simp
  ultimately show "\<exists>sl. handleMoveSlide slideId dir st = st\<lparr>currentCarousel := Some (cur\<lparr>slides := sl\<rparr>)\<rparr>
                \<and> length sl = length (slides cur)
                \<and> sl ! i = slides cur ! j \<and> sl ! j = slides cur ! i
                \<and> (\<forall>k<length sl. k \<noteq> i \<and> k \<noteq> j \<longrightarrow> sl ! k = slides cur ! k)"
    by blast
next
  assume "\<forall>s\<in>set (slides cur). \<not> has_id slideId s"
  then have "findIndex (has_id slideId) (slides cur) = None"
    by (simp add: findIndex_None_iff)
  then show "handleMoveSlide slideId dir st = st"
    using cur by (simp add: handleMoveSlide_def moveSlides_def)
next
  fix i
  assume a: "i < length (slides cur) \<and> has_id slideId (slides cur ! i)
              \<and> (\<forall>k<i. \<not> has_id slideId (slides cur ! k))
              \<and> (if dir = left then i = 0 else Suc i = length (slides cur))"
  then have fi: "findIndex (has_id slideId) (slides cur) = Some i"
    by (simp add: findIndex_Some_iff)
  show "handleMoveSlide slideId dir st = st"
    using a cur fi by (auto simp: handleMoveSlide_def moveSlides_def Let_def split: if_splits)
qed

theorem handleMoveSlide_swaps_adjacent_witness:
  "\<exists>sl. handleMoveSlide ''b'' right ex_state
           = ex_state\<lparr>currentCarousel := Some (ex_carousel\<lparr>slides := sl\<rparr>)\<rparr>
       \<and> length sl = 3 \<and> sl ! 0 = ex_slide_a \<and> sl ! 1 = ex_slide_c \<and> sl ! 2 = ex_slide_b"
proof -
  have cur: "currentCarousel ex_state = Some ex_carousel"
    by (simp add: ex_state_def)
  have pre: "1 < length (slides ex_carousel) \<and> has_id ''b'' (slides ex_carousel ! 1)
              \<and> (\<forall>k<1. \<not> has_id ''b'' (slides ex_carousel ! k))
              \<and> 2 < length (slides ex_carousel)
              \<and> int 2 = (if right = left then int 1 - 1 else int 1 + 1)"
    by (simp add: ex_carousel_def has_id_def ex_slide_a_def ex_slide_b_def)
  from handleMoveSlide_swaps_adjacent [OF cur, of "''b''" right] pre
  obtain sl where sl: "handleMoveSlide ''b'' right ex_state
           = ex_state\<lparr>currentCarousel := Some (ex_carousel\<lparr>slides := sl\<rparr>)\<rparr>"
      "length sl = length (slides ex_carousel)"
      "sl ! 1 = slides ex_carousel ! 2" "sl ! 2 = slides ex_carousel ! 1"
      "\<forall>k<length sl. k \<noteq> 1 \<and> k \<noteq> 2 \<longrightarrow> sl ! k = slides ex_carousel ! k"
    by blast
  from sl(2,5) have "sl ! 0 = slides ex_carousel ! 0" by (simp add: ex_carousel_def)
  with sl show ?thesis by (auto simp: ex_carousel_def)
qed

section \<open>Updating a slide\<close>

text \<open>
  Claim C4. With a current carousel, \<^verbatim>\<open>handleUpdateSlide\<close> makes the current carousel
  the old one with a new slide list of the same length, in which every slide with the
  given id has each property named in the update set to the update's value and keeps
  its other properties, and every other slide is unchanged. The history keeps its
  length; every entry whose id differs from the carousel's is unchanged; the first
  entry with the carousel's id is the updated carousel, and when the ids of the history
  are distinct that is every entry with this id.
\<close>

theorem handleUpdateSlide_writes_back:
  assumes cur: "currentCarousel st = Some cur"
  shows "\<exists>cur'. currentCarousel (handleUpdateSlide slideId updates st) = Some cur'
      \<and> cur' = cur\<lparr>slides := slides cur'\<rparr>
      \<and> length (slides cur') = length (slides cur)
      \<and> (\<forall>k<length (slides cur). \<forall>f.
            (slides cur' ! k) f =
              (if has_id slideId (slides cur ! k)
               then (case updates f of Some v \<Rightarrow> Some v | None \<Rightarrow> (slides cur ! k) f)
               else (slides cur ! k) f))
      \<and> length (carouselHistory (handleUpdateSlide slideId updates st)) = length (carouselHistory st)
      \<and> (\<forall>i<length (carouselHistory st).
            carousel_id (carouselHistory st ! i) \<noteq> carousel_id cur \<longrightarrow>
            carouselHistory (handleUpdateSlide slideId updates st) ! i = carouselHistory st ! i)
      \<and> (\<forall>i<length (carouselHistory st).
            carousel_id (carouselHistory st ! i) = carousel_id cur
            \<and> (\<forall>k<i. carousel_id (carouselHistory st ! k) \<noteq> carousel_id cur) \<longrightarrow>
            carouselHistory (handleUpdateSlide slideId updates st) ! i = cur')
      \<and> (distinct (map carousel_id (carouselHistory st)) \<longrightarrow>
           (\<forall>i<length (carouselHistory st).
              carousel_id (carouselHistory st ! i) = carousel_id cur \<longrightarrow>
              carouselHistory (handleUpdateSlide slideId updates st) ! i = cur'))"
proof -
  let ?new = "cur\<lparr>slides := map (\<lambda>s. if has_id slideId s then s ++ updates else s) (slides cur)\<rparr>"
  let ?st' = "handleUpdateSlide slideId updates st"
  have st': "?st' = st\<lparr>carouselHistory := writeBack ?new (carouselHistory st),
                        currentCarousel := Some ?new\<rparr>"
    using cur by (simp add: handleUpdateSlide_def Let_def)
  have id: "carousel_id ?new = carousel_id cur" by simp
  have c1: "currentCarousel ?st' = Some ?new" by (simp add: st')
  have c2: "?new = cur\<lparr>slides := slides ?new\<rparr>" by simp
  have c3: "length (slides ?new) = length (slides cur)" by simp
  have c4: "\<forall>k<length (slides cur). \<forall>f.
            (slides ?new ! k) f =
              (if has_id slideId (slides cur ! k)
               then (case updates f of Some v \<Rightarrow> Some v | None \<Rightarrow> (slides cur ! k) f)
               else (slides cur ! k) f)"
    by (simp add: map_add_def split: option.splits)
  have h: "carouselHistory ?st' = writeBack ?new (carouselHistory st)" by (simp add: st')
  have c5: "length (carouselHistory ?st') = length (carouselHistory st)"
    by (simp add: h length_writeBack)
  have c6: "\<forall>i<length (carouselHistory st).
            carousel_id (carouselHistory st ! i) \<noteq> carousel_id cur \<longrightarrow>
            carouselHistory ?st' ! i = carouselHistory st ! i"
    using writeBack_other [of "carouselHistory st" _ ?new] by (simp add: h)
  have c7: "\<forall>i<length (carouselHistory st).
            carousel_id (carouselHistory st ! i) = carousel_id cur
            \<and> (\<forall>k<i. carousel_id (carouselHistory st ! k) \<noteq> carousel_id cur) \<longrightarrow>
            carouselHistory ?st' ! i = ?new"
    using writeBack_first [of _ "carouselHistory st" ?new] by (simp add: h)
  have c8: "distinct (map carousel_id (carouselHistory st)) \<longrightarrow>
           (\<forall>i<length (carouselHistory st).
              carousel_id (carouselHistory st ! i) = carousel_id cur \<longrightarrow>
              carouselHistory ?st' ! i = ?new)"
    using writeBack_distinct [of "carouselHistory st" _ ?new] by (simp add: h)
  from c1 c2 c3 c4 c5 c6 c7 c8 show ?thesis by blast
qed


theorem handleUpdateSlide_writes_back_witness:
  "\<exists>cur'. currentCarousel (handleUpdateSlide ''b'' [''headline'' \<mapsto> JStr ''New''] ex_state) = Some cur'
      \<and> (slides cur' ! 1) ''headline'' = Some (JStr ''New'')
      \<and> (slides cur' ! 1) ''fontColor'' = Some (JStr ''#FF0000'')
      \<and> (slides cur' ! 0) ''headline'' = Some (JStr ''First'')
      \<and> carouselHistory (handleUpdateSlide ''b'' [''headline'' \<mapsto> JStr ''New''] ex_state) ! 0 = ex_other
      \<and> carouselHistory (handleUpdateSlide ''b'' [''headline'' \<mapsto> JStr ''New''] ex_state) ! 1 = cur'"
proof -
  let ?u = "[''headline'' \<mapsto> JStr ''New'']"
  have cur: "currentCarousel ex_state = Some ex_carousel"
    by (simp add: ex_state_def)
  have h: "carouselHistory ex_state = [ex_other, ex_carousel]"
    by (simp add: ex_state_def)
  have ids: "carousel_id ex_other \<noteq> carousel_id ex_carousel"
    by (simp add: ex_other_def ex_carousel_def)
  have sl: "slides ex_carousel = [ex_slide_a, ex_slide_b, ex_slide_c]"
    by (simp add: ex_carousel_def)
  have hb: "has_id ''b'' ex_slide_b" "\<not> has_id ''b'' ex_slide_a"
    by (simp_all add: has_id_def ex_slide_a_def ex_slide_b_def)
  from handleUpdateSlide_writes_back [OF cur, of "''b''" ?u]
  obtain cur' where c:
    "currentCarousel (handleUpdateSlide ''b'' ?u ex_state) = Some cur'"
    "\<forall>k<length (slides ex_carousel). \<forall>f.
        (slides cur' ! k) f =
          (if has_id ''b'' (slides ex_carousel ! k)
           then (case ?u f of Some v \<Rightarrow> Some v | None \<Rightarrow> (slides ex_carousel ! k) f)
           else (slides ex_carousel ! k) f)"
    "\<forall>i<length (carouselHistory ex_state).
        carousel_id (carouselHistory ex_state ! i) \<noteq> carousel_id ex_carousel \<longrightarrow>
        carouselHistory (handleUpdateSlide ''b'' ?u ex_state) ! i = carouselHistory ex_state ! i"
    "\<forall>i<length (carouselHistory ex_state).
        carousel_id (carouselHistory ex_state ! i) = carousel_id ex_carousel
        \<and> (\<forall>k<i. carousel_id (carouselHistory ex_state ! k) \<noteq> carousel_id ex_carousel) \<longrightarrow>
        carouselHistory (handleUpdateSlide ''b'' ?u ex_state) ! i = cur'"
    by blast
  from c(2) [rule_format, of 1 "''headline''"] hb
  have s1: "(slides cur' ! 1) ''headline'' = Some (JStr ''New'')"
    by (simp add: sl)
  from c(2) [rule_format, of 1 "''fontColor''"] hb
  have s2: "(slides cur' ! 1) ''fontColor'' = Some (JStr ''#FF0000'')"
    by (simp add: sl ex_slide_b_def)
  from c(2) [rule_format, of 0 "''headline''"] hb
  have s3: "(slides cur' ! 0) ''headline'' = Some (JStr ''First'')"
    by (simp add: sl ex_slide_a_def)
  from c(3) [rule_format, of 0] ids
  have h0: "carouselHistory (handleUpdateSlide ''b'' ?u ex_state) ! 0 = ex_other"
    by (simp add: h)
  from c(4) [rule_format, of 1] ids
  have h1: "carouselHistory (handleUpdateSlide ''b'' ?u ex_state) ! 1 = cur'"
    by (simp add: h)
  from c(1) s1 s2 s3 h0 h1 show ?thesis by blast
qed

section \<open>Updating the preferences\<close>

text \<open>
  Claim C6. With a current carousel, \<^verbatim>\<open>handleUpdateCarouselPreferences\<close> changes only
  the preferences of the current carousel: every property named in the update has the
  update's value, and every property the update does not name keeps its previous value
  (or stays absent).
\<close>

theorem handleUpdateCarouselPreferences_partial:
  assumes cur: "currentCarousel st = Some cur"
  shows "\<exists>cur'. currentCarousel (handleUpdateCarouselPreferences uuid now defaultBrandKit updates topicValue st)
                 = Some cur'
      \<and> cur' = cur\<lparr>preferences := preferences cur'\<rparr>
      \<and> (\<forall>f v. updates f = Some v \<longrightarrow> preferences cur' f = Some v)
      \<and> (\<forall>f. updates f = None \<longrightarrow> preferences cur' f = preferences cur f)"
proof -
  let ?new = "cur\<lparr>preferences := preferences cur ++ updates\<rparr>"
  have "currentCarousel (handleUpdateCarouselPreferences uuid now defaultBrandKit updates topicValue st)
          = Some ?new"
    using cur by (simp add: handleUpdateCarouselPreferences_def Let_def)
  moreover have "?new = cur\<lparr>preferences := preferences ?new\<rparr>" by simp
  moreover have "\<forall>f v. updates f = Some v \<longrightarrow> preferences ?new f = Some v" by simp
  moreover have "\<forall>f. updates f = None \<longrightarrow> preferences ?new f = preferences cur f"
    by (simp add: map_add_def)
  ultimately show ?thesis by blast
qed

theorem handleUpdateCarouselPreferences_partial_witness:
  "\<exists>cur'. currentCarousel
             (handleUpdateCarouselPreferences ''1'' ''2025-01-02T00:00:00.000Z'' Map.empty
                [''font'' \<mapsto> JStr ''Lora''] ''Coffee Brewing'' ex_state) = Some cur'
      \<and> preferences cur' ''font'' = Some (JStr ''Lora'')
      \<and> preferences cur' ''fontColor'' = Some (JStr ''#111827'')
      \<and> preferences cur' ''aspectRatio'' = None"
proof -
  let ?u = "[''font'' \<mapsto> JStr ''Lora'']"
  have cur: "currentCarousel ex_state = Some ex_carousel"
    by (simp add: ex_state_def)
  from handleUpdateCarouselPreferences_partial
         [OF cur, of "''1''" "''2025-01-02T00:00:00.000Z''" Map.empty ?u "''Coffee Brewing''"]
  obtain cur' where c:
    "currentCarousel
       (handleUpdateCarouselPreferences ''1'' ''2025-01-02T00:00:00.000Z'' Map.empty
          ?u ''Coffee Brewing'' ex_state) = Some cur'"
    "\<forall>f v. ?u f = Some v \<longrightarrow> preferences cur' f = Some v"
    "\<forall>f. ?u f = None \<longrightarrow> preferences cur' f = preferences ex_carousel f"
    by blast
  from c(2) [rule_format, of "''font''" "JStr ''Lora''"]
  have p1: "preferences cur' ''font'' = Some (JStr ''Lora'')" by simp
  from c(3) [rule_format, of "''fontColor''"]
  have p2: "preferences cur' ''fontColor'' = Some (JStr ''#111827'')"
    by (simp add: ex_carousel_def)
  from c(3) [rule_format, of "''aspectRatio''"]
  have p3: "preferences cur' ''aspectRatio'' = None"
    by (simp add: ex_carousel_def)
  from c(1) p1 p2 p3 show ?thesis by blast
qed

section \<open>Leaving the generator\<close>

text \<open>
  Claim C9, as the code has it. From any view but the login and the profile setup, with
  a current carousel, \<^verbatim>\<open>goToDashboard\<close> shows the dashboard, clears the current
  carousel, and writes the carousel over the first history entry with its id, leaving
  every entry with another id as it was; so the history contains the carousel whenever
  an entry had its id, and is unchanged when none had.
\<close>

theorem goToDashboard_flushes_matching_entry:
  assumes v: "view st \<noteq> LOGIN" "view st \<noteq> PROFILE_SETUP"
    and cur: "currentCarousel st = Some cur"
  shows "view (goToDashboard st) = DASHBOARD
      \<and> currentCarousel (goToDashboard st) = None
      \<and> length (carouselHistory (goToDashboard st)) = length (carouselHistory st)
      \<and> (\<forall>i<length (carouselHistory st).
            carousel_id (carouselHistory st ! i) \<noteq> carousel_id cur \<longrightarrow>
            carouselHistory (goToDashboard st) ! i = carouselHistory st ! i)
      \<and> (\<forall>i<length (carouselHistory st).
            carousel_id (carouselHistory st ! i) = carousel_id cur
            \<and> (\<forall>k<i. carousel_id (carouselHistory st ! k) \<noteq> carousel_id cur) \<longrightarrow>
            carouselHistory (goToDashboard st) ! i = cur)
      \<and> ((\<exists>c\<in>set (carouselHistory st). carousel_id c = carousel_id cur) \<longrightarrow>
            cur \<in> set (carouselHistory (goToDashboard st)))
      \<and> ((\<forall>c\<in>set (carouselHistory st). carousel_id c \<noteq> carousel_id cur) \<longrightarrow>
            carouselHistory (goToDashboard st) = carouselHistory st)"
proof -
  let ?h = "carouselHistory st"
  have st': "goToDashboard st = st\<lparr>carouselHistory := writeBack cur ?h,
                                   currentCarousel := None, view := DASHBOARD\<rparr>"
    using v cur by (simp add: goToDashboard_def)
  have h: "carouselHistory (goToDashboard st) = writeBack cur ?h" by (simp add: st')
  have c1: "view (goToDashboard st) = DASHBOARD" by (simp add: st')
  have c2: "currentCarousel (goToDashboard st) = None" by (simp add: st')
  have c3: "length (carouselHistory (goToDashboard st)) = length ?h"
    by (simp add: h length_writeBack)
  have c4: "\<forall>i<length ?h. carousel_id (?h ! i) \<noteq> carousel_id cur \<longrightarrow>
              carouselHistory (goToDashboard st) ! i = ?h ! i"
    using writeBack_other [of ?h _ cur] by (simp add: h)
  have c5: "\<forall>i<length ?h. carousel_id (?h ! i) = carousel_id cur
              \<and> (\<forall>k<i. carousel_id (?h ! k) \<noteq> carousel_id cur) \<longrightarrow>
              carouselHistory (goToDashboard st) ! i = cur"
    using writeBack_first [of _ ?h cur] by (simp add: h)
  have c6: "(\<exists>c\<in>set ?h. carousel_id c = carousel_id cur) \<longrightarrow>
              cur \<in> set (carouselHistory (goToDashboard st))"
  proof
    assume "\<exists>c\<in>set ?h. carousel_id c = carousel_id cur"
    then have "findIndex (\<lambda>c. carousel_id c = carousel_id cur) ?h \<noteq> None"
      by (simp add: findIndex_None_iff)
    then obtain i where i: "findIndex (\<lambda>c. carousel_id c = carousel_id cur) ?h = Some i"
      by blast
    then have "i < length ?h" by (simp add: findIndex_Some_iff)
    with i show "cur \<in> set (carouselHistory (goToDashboard st))"
      by (simp add: h writeBack_def set_update_memI)
  qed
  have c7: "(\<forall>c\<in>set ?h. carousel_id c \<noteq> carousel_id cur) \<longrightarrow>
              carouselHistory (goToDashboard st) = ?h"
    using writeBack_absent [of ?h cur] by (simp add: h)
  from c1 c2 c3 c4 c5 c6 c7 show ?thesis by blast
qed

theorem goToDashboard_flushes_matching_entry_witness:
  "view (goToDashboard (handleMoveSlide ''b'' right ex_state)) = DASHBOARD
   \<and> currentCarousel (goToDashboard (handleMoveSlide ''b'' right ex_state)) = None
   \<and> carouselHistory (goToDashboard (handleMoveSlide ''b'' right ex_state))
       = [ex_other, ex_carousel\<lparr>slides := [ex_slide_a, ex_slide_c, ex_slide_b]\<rparr>]"
proof -
  let ?st = "handleMoveSlide ''b'' right ex_state"
  let ?cur = "ex_carousel\<lparr>slides := [ex_slide_a, ex_slide_c, ex_slide_b]\<rparr>"
  have fi: "findIndex (has_id ''b'') (slides ex_carousel) = Some 1"
    by (simp add: ex_carousel_def has_id_def ex_slide_a_def ex_slide_b_def)
  have st: "?st = ex_state\<lparr>currentCarousel := Some ?cur\<rparr>"
    by (simp add: handleMoveSlide_def moveSlides_def fi ex_state_def) (simp add: ex_carousel_def)
  have v: "view ?st \<noteq> LOGIN" "view ?st \<noteq> PROFILE_SETUP"
    by (simp_all only: st) (simp_all add: ex_state_def)
  have cur: "currentCarousel ?st = Some ?cur" by (simp only: st) simp
  have h: "carouselHistory ?st = [ex_other, ex_carousel]"
    by (simp only: st) (simp add: ex_state_def)
  have ids: "carousel_id ex_other \<noteq> carousel_id ?cur"
    by (simp add: ex_other_def ex_carousel_def)
  note g = goToDashboard_flushes_matching_entry [OF v cur]
  from g have l: "length (carouselHistory (goToDashboard ?st)) = 2" by (simp add: h)
  from g have "\<forall>i<length (carouselHistory ?st).
            carousel_id (carouselHistory ?st ! i) \<noteq> carousel_id ?cur \<longrightarrow>
            carouselHistory (goToDashboard ?st) ! i = carouselHistory ?st ! i" by blast
  from this [rule_format, of 0] ids
  have h0: "carouselHistory (goToDashboard ?st) ! 0 = ex_other" by (simp add: h)
  from g have "\<forall>i<length (carouselHistory ?st).
            carousel_id (carouselHistory ?st ! i) = carousel_id ?cur
            \<and> (\<forall>k<i. carousel_id (carouselHistory ?st ! k) \<noteq> carousel_id ?cur) \<longrightarrow>
            carouselHistory (goToDashboard ?st) ! i = ?cur" by blast
  from this [rule_format, of 1] ids
  have h1: "carouselHistory (goToDashboard ?st) ! 1 = ?cur" by (simp add: h)
  from l h0 h1 have "carouselHistory (goToDashboard ?st) = [ex_other, ?cur]"
    by (auto simp: list_eq_iff_nth_eq less_Suc_eq numeral_2_eq_2)
  with g show ?thesis by blast
qed

text \<open>
  Claim C9 as stated fails for a carousel that is not in the history: the placeholder
  made by a change of preferences in a fresh generator is dropped by the transition.
\<close>

theorem goToDashboard_drops_placeholder:
  "view ex_placeholder_state = GENERATOR
   \<and> currentCarousel ex_placeholder_state \<noteq> None
   \<and> carousel_id (the (currentCarousel ex_placeholder_state)) = ''temp-1''
   \<and> carouselHistory (goToDashboard ex_placeholder_state) = [ex_other]
   \<and> the (currentCarousel ex_placeholder_state)
        \<notin> set (carouselHistory (goToDashboard ex_placeholder_state))
   \<and> currentCarousel (goToDashboard ex_placeholder_state) = None"
  by (simp add: ex_placeholder_state_def ex_fresh_state_def handleUpdateCarouselPreferences_def
      goToDashboard_def writeBack_def ex_other_def)

section \<open>Mutators that do not write back\<close>

text \<open>
  Claim C3 at a state whose current carousel is the second history entry:
  \<^verbatim>\<open>handleMoveSlide\<close> and \<^verbatim>\<open>handleClearSlideOverrides\<close> change the current carousel
  and leave the history entry with its id as it was, so the two differ afterwards.
\<close>

theorem reorder_and_clear_leave_history_stale:
  "currentCarousel ex_state = Some ex_carousel
   \<and> carouselHistory ex_state = [ex_other, ex_carousel]
   \<and> currentCarousel (handleMoveSlide ''b'' right ex_state)
        = Some (ex_carousel\<lparr>slides := [ex_slide_a, ex_slide_c, ex_slide_b]\<rparr>)
   \<and> carouselHistory (handleMoveSlide ''b'' right ex_state) = [ex_other, ex_carousel]
   \<and> ex_carousel\<lparr>slides := [ex_slide_a, ex_slide_c, ex_slide_b]\<rparr> \<noteq> ex_carousel
   \<and> currentCarousel (handleClearSlideOverrides ''fontColor'' ex_state)
        = Some (ex_carousel\<lparr>slides := [ex_slide_a, ex_slide_b(''fontColor'' := None), ex_slide_c]\<rparr>)
   \<and> carouselHistory (handleClearSlideOverrides ''fontColor'' ex_state) = [ex_other, ex_carousel]
   \<and> ex_carousel\<lparr>slides := [ex_slide_a, ex_slide_b(''fontColor'' := None), ex_slide_c]\<rparr>
        \<noteq> ex_carousel"
proof -
  have fi: "findIndex (has_id ''b'') (slides ex_carousel) = Some 1"
    by (simp add: ex_carousel_def has_id_def ex_slide_a_def ex_slide_b_def)
  have m: "handleMoveSlide ''b'' right ex_state
             = ex_state\<lparr>currentCarousel := Some (ex_carousel\<lparr>slides := [ex_slide_a, ex_slide_c, ex_slide_b]\<rparr>)\<rparr>"
    by (simp add: handleMoveSlide_def moveSlides_def fi ex_state_def) (simp add: ex_carousel_def)
  have ca: "ex_slide_a(''fontColor'' := None) = ex_slide_a"
    and cc: "ex_slide_c(''fontColor'' := None) = ex_slide_c"
    by (auto simp: ex_slide_a_def ex_slide_c_def)
  have c: "handleClearSlideOverrides ''fontColor'' ex_state
             = ex_state\<lparr>currentCarousel := Some (ex_carousel\<lparr>slides :=
                 [ex_slide_a, ex_slide_b(''fontColor'' := None), ex_slide_c]\<rparr>)\<rparr>"
    by (simp add: handleClearSlideOverrides_def ex_state_def) (simp add: ex_carousel_def ca cc)
  have "(ex_slide_b(''fontColor'' := None)) ''fontColor'' \<noteq> ex_slide_b ''fontColor''"
    by (simp add: ex_slide_b_def)
  then have nb: "ex_slide_b(''fontColor'' := None) \<noteq> ex_slide_b" by metis
  have n1: "ex_carousel\<lparr>slides := [ex_slide_a, ex_slide_c, ex_slide_b]\<rparr> \<noteq> ex_carousel"
  proof
    assume "ex_carousel\<lparr>slides := [ex_slide_a, ex_slide_c, ex_slide_b]\<rparr> = ex_carousel"
    then have "slides (ex_carousel\<lparr>slides := [ex_slide_a, ex_slide_c, ex_slide_b]\<rparr>) = slides ex_carousel"
      by simp
    then show False using ex_slides_distinct by (simp add: ex_carousel_def)
  qed
  have n2: "ex_carousel\<lparr>slides := [ex_slide_a, ex_slide_b(''fontColor'' := None), ex_slide_c]\<rparr>
              \<noteq> ex_carousel"
  proof
    assume "ex_carousel\<lparr>slides := [ex_slide_a, ex_slide_b(''fontColor'' := None), ex_slide_c]\<rparr>
              = ex_carousel"
    then have "slides (ex_carousel\<lparr>slides := [ex_slide_a, ex_slide_b(''fontColor'' := None), ex_slide_c]\<rparr>)
                 = slides ex_carousel"
      by simp
    then show False using nb by (simp add: ex_carousel_def)
  qed
  show ?thesis
    using n1 n2 by (simp add: m c) (simp add: ex_state_def)
qed

section \<open>Saving the history\<close>

text \<open>
  Claim C1, as the code has it. Let the history be non-empty, let its sanitizer not
  throw (every \<^verbatim>\<open>backgroundImage\<close> is a string or falsy, as its type says), and let the
  storage reject writes only with errors that the routine recognizes as quota errors.
  Then the routine attempts the whole history first and after each rejection the
  history without its last (oldest) entry, and it stops after \<open>k\<close> drops, where either
  the write of the first \<open>n - k\<close> entries succeeds and that snapshot is stored, or exactly
  one entry is left, its write is rejected too, and the effect sets the error message
  \<^verbatim>\<open>t('errorHistoryTooLarge')\<close> and leaves the storage as it was. No attempt is made
  with fewer entries than one.
\<close>

theorem saveHistoryWithAutoTrim_trims_oldest:
  assumes ne: "carouselHistory st \<noteq> []"
    and typed: "sanitizeHistory (carouselHistory st) = Some sh"
    and quota: "\<forall>x e. setItem x = Some e \<longrightarrow> isQuotaError e"
  shows "\<exists>k<length (carouselHistory st).
           fst (saveHistoryWithAutoTrim setItem (carouselHistory st))
             = map (\<lambda>j. take (length (carouselHistory st) - j) (carouselHistory st)) [0..<Suc k]
         \<and> (\<forall>j<k. setItem (take (length (carouselHistory st) - j) sh) \<noteq> None)
         \<and> ((setItem (take (length (carouselHistory st) - k) sh) = None
               \<and> snd (saveHistoryWithAutoTrim setItem (carouselHistory st))
                    = Stored (take (length (carouselHistory st) - k) sh)
               \<and> historyEffect pf setItem (st, storage)
                    = Some (st, Some (take (length (carouselHistory st) - k) sh)))
            \<or> (Suc k = length (carouselHistory st)
               \<and> setItem (take 1 sh) \<noteq> None
               \<and> snd (saveHistoryWithAutoTrim setItem (carouselHistory st)) = HistoryTooLarge
               \<and> historyEffect pf setItem (st, storage)
                    = Some (st\<lparr>error := Some (t pf ''errorHistoryTooLarge'' [])\<rparr>, storage)))"
proof -
  let ?h = "carouselHistory st"
  let ?R = "saveHistoryWithAutoTrim setItem ?h"
  from save_trace [OF ne typed quota] obtain k where k: "k < length ?h"
    "length (fst ?R) = Suc k"
    "\<forall>j<k. setItem (take (length ?h - j) sh) \<noteq> None"
    "(setItem (take (length ?h - k) sh) = None \<and> snd ?R = Stored (take (length ?h - k) sh))
     \<or> (Suc k = length ?h \<and> setItem (take (length ?h - k) sh) \<noteq> None
        \<and> snd ?R = HistoryTooLarge)"
    by blast
  have nth: "\<forall>j<length (fst ?R). fst ?R ! j = take (length ?h - j) ?h"
    using save_attempts [of setItem ?h] by blast
  have a: "fst ?R = map (\<lambda>j. take (length ?h - j) ?h) [0..<Suc k]"
    using k(2) nth by (simp add: list_eq_iff_nth_eq nth_map_upt del: upt_Suc)
  from k(4) have d:
    "(setItem (take (length ?h - k) sh) = None
        \<and> snd ?R = Stored (take (length ?h - k) sh)
        \<and> historyEffect pf setItem (st, storage) = Some (st, Some (take (length ?h - k) sh)))
     \<or> (Suc k = length ?h \<and> setItem (take 1 sh) \<noteq> None \<and> snd ?R = HistoryTooLarge
        \<and> historyEffect pf setItem (st, storage)
             = Some (st\<lparr>error := Some (t pf ''errorHistoryTooLarge'' [])\<rparr>, storage))"
  proof
    assume "setItem (take (length ?h - k) sh) = None \<and> snd ?R = Stored (take (length ?h - k) sh)"
    then show ?thesis by (simp add: historyEffect_def)
  next
    assume b: "Suc k = length ?h \<and> setItem (take (length ?h - k) sh) \<noteq> None
        \<and> snd ?R = HistoryTooLarge"
    then have "length ?h - k = 1" by linarith
    with b show ?thesis by (simp add: historyEffect_def)
  qed
  from k(1) a k(3) d show ?thesis by blast
qed

theorem saveHistoryWithAutoTrim_trims_oldest_witness:
  "fst (saveHistoryWithAutoTrim ex_room_for_one (carouselHistory ex_state))
     = [[ex_other, ex_carousel], [ex_other]]
   \<and> snd (saveHistoryWithAutoTrim ex_room_for_one (carouselHistory ex_state)) = Stored [ex_other]
   \<and> historyEffect ex_platform ex_room_for_one (ex_state, None) = Some (ex_state, Some [ex_other])
   \<and> fst (saveHistoryWithAutoTrim ex_no_room (carouselHistory ex_state))
     = [[ex_other, ex_carousel], [ex_other]]
   \<and> snd (saveHistoryWithAutoTrim ex_no_room (carouselHistory ex_state)) = HistoryTooLarge
   \<and> historyEffect ex_platform ex_no_room (ex_state, None)
       = Some (ex_state\<lparr>error := Some (t ex_platform ''errorHistoryTooLarge'' [])\<rparr>, None)"
proof -
  have h: "carouselHistory ex_state = [ex_other, ex_carousel]" by (simp add: ex_state_def)
  have ne: "carouselHistory ex_state \<noteq> []" by (simp add: h)
  have typed: "sanitizeHistory (carouselHistory ex_state) = Some [ex_other, ex_carousel]"
    by (simp add: h ex_history_sanitized)
  have q: "isQuotaError ex_quota_error"
    by (simp add: ex_quota_error_def isQuotaError_def)
  have quota1: "\<forall>x e. ex_room_for_one x = Some e \<longrightarrow> isQuotaError e"
    using q by (simp add: ex_room_for_one_def)
  have quota0: "\<forall>x e. ex_no_room x = Some e \<longrightarrow> isQuotaError e"
    using q by (simp add: ex_no_room_def)
  have two: "ex_room_for_one [ex_other, ex_carousel] \<noteq> None"
    and one: "ex_room_for_one [ex_other] = None"
    by (simp_all add: ex_room_for_one_def)
  have none: "\<And>x. ex_no_room x \<noteq> None" by (simp add: ex_no_room_def)
  have first: "fst (saveHistoryWithAutoTrim ex_room_for_one (carouselHistory ex_state))
       = [[ex_other, ex_carousel], [ex_other]]
     \<and> snd (saveHistoryWithAutoTrim ex_room_for_one (carouselHistory ex_state)) = Stored [ex_other]
     \<and> historyEffect ex_platform ex_room_for_one (ex_state, None) = Some (ex_state, Some [ex_other])"
  proof -
    from saveHistoryWithAutoTrim_trims_oldest [OF ne typed quota1, of ex_platform None]
    obtain k where k: "k < length (carouselHistory ex_state)"
      "fst (saveHistoryWithAutoTrim ex_room_for_one (carouselHistory ex_state))
         = map (\<lambda>j. take (length (carouselHistory ex_state) - j) (carouselHistory ex_state)) [0..<Suc k]"
      "(ex_room_for_one (take (length (carouselHistory ex_state) - k) [ex_other, ex_carousel]) = None
          \<and> snd (saveHistoryWithAutoTrim ex_room_for_one (carouselHistory ex_state))
               = Stored (take (length (carouselHistory ex_state) - k) [ex_other, ex_carousel])
          \<and> historyEffect ex_platform ex_room_for_one (ex_state, None)
               = Some (ex_state, Some (take (length (carouselHistory ex_state) - k) [ex_other, ex_carousel])))
       \<or> (Suc k = length (carouselHistory ex_state)
          \<and> ex_room_for_one (take 1 [ex_other, ex_carousel]) \<noteq> None)"
      by blast
    from k(1) have "k = 0 \<or> k = 1" by (auto simp: h)
    then show ?thesis
    proof
      assume "k = 0"
      with k(3) two show ?thesis by (simp add: h)
    next
      assume "k = 1"
      with k(2,3) one show ?thesis by (simp add: h)
    qed
  qed
  have second: "fst (saveHistoryWithAutoTrim ex_no_room (carouselHistory ex_state))
       = [[ex_other, ex_carousel], [ex_other]]
     \<and> snd (saveHistoryWithAutoTrim ex_no_room (carouselHistory ex_state)) = HistoryTooLarge
     \<and> historyEffect ex_platform ex_no_room (ex_state, None)
         = Some (ex_state\<lparr>error := Some (t ex_platform ''errorHistoryTooLarge'' [])\<rparr>, None)"
  proof -
    from saveHistoryWithAutoTrim_trims_oldest [OF ne typed quota0, of ex_platform None]
    obtain k where k: "k < length (carouselHistory ex_state)"
      "fst (saveHistoryWithAutoTrim ex_no_room (carouselHistory ex_state))
         = map (\<lambda>j. take (length (carouselHistory ex_state) - j) (carouselHistory ex_state)) [0..<Suc k]"
      "ex_no_room (take (length (carouselHistory ex_state) - k) [ex_other, ex_carousel]) = None
       \<or> (Suc k = length (carouselHistory ex_state)
          \<and> snd (saveHistoryWithAutoTrim ex_no_room (carouselHistory ex_state)) = HistoryTooLarge
          \<and> historyEffect ex_platform ex_no_room (ex_state, None)
               = Some (ex_state\<lparr>error := Some (t ex_platform ''errorHistoryTooLarge'' [])\<rparr>, None))"
      by blast
    from k(3) none have k3: "Suc k = length (carouselHistory ex_state)
          \<and> snd (saveHistoryWithAutoTrim ex_no_room (carouselHistory ex_state)) = HistoryTooLarge
          \<and> historyEffect ex_platform ex_no_room (ex_state, None)
               = Some (ex_state\<lparr>error := Some (t ex_platform ''errorHistoryTooLarge'' [])\<rparr>, None)"
      by blast
    then have "k = 1" by (simp add: h)
    with k(2) k3 show ?thesis by (simp add: h)
  qed
  from first second show ?thesis by blast
qed

text \<open>
  Claim C1 as stated fails for the empty history: when the storage rejects \<^verbatim>\<open>'[]'\<close> with
  a quota error, the routine only logs the failure; there is no entry to drop, no retry,
  no size error, and the run ends with neither a stored snapshot nor a single entry left.
\<close>

theorem saveHistoryWithAutoTrim_empty_history_gives_up:
  "carouselHistory ex_empty_state = []
   \<and> ex_no_room [] = Some ex_quota_error
   \<and> isQuotaError ex_quota_error
   \<and> saveHistoryWithAutoTrim ex_no_room (carouselHistory ex_empty_state) = ([[]], ClearFailed)
   \<and> historyEffect ex_platform ex_no_room (ex_empty_state, None) = Some (ex_empty_state, None)
   \<and> error ex_empty_state = None"
  by (simp add: ex_empty_state_def ex_no_room_def ex_quota_error_def isQuotaError_def save_empty
      historyEffect_def)

text \<open>
  Claim C10, as the code has it. The routine is a total function (its recursion is on a
  list one entry shorter). For a history of \<open>n\<close> entries the attempt number \<open>j\<close> (from
  0) is made for the first \<open>n - j\<close> entries, and there are at most \<open>n\<close> attempts when
  \<open>n > 0\<close>. When \<open>n = 0\<close> there is exactly one attempt, the write of \<^verbatim>\<open>'[]'\<close>, and
  the run ends with the empty snapshot stored or with a failure that is only logged.
  When \<open>n > 0\<close>, the sanitizer does not throw and the storage rejects writes with quota
  errors only, there is at least one attempt and the run ends either with a write that
  succeeds or, after \<open>n\<close> attempts, with the size error.
\<close>

theorem saveHistoryWithAutoTrim_attempts_bounded:
  "length (fst (saveHistoryWithAutoTrim setItem h)) \<le> (if h = [] then 1 else length h)
   \<and> (\<forall>j<length (fst (saveHistoryWithAutoTrim setItem h)).
         fst (saveHistoryWithAutoTrim setItem h) ! j = take (length h - j) h
         \<and> length (fst (saveHistoryWithAutoTrim setItem h) ! j) = length h - j)
   \<and> (h = [] \<longrightarrow>
         fst (saveHistoryWithAutoTrim setItem h) = [[]]
         \<and> (if setItem [] = None then snd (saveHistoryWithAutoTrim setItem h) = Stored []
            else snd (saveHistoryWithAutoTrim setItem h) = ClearFailed))
   \<and> (h \<noteq> [] \<and> sanitizeHistory h \<noteq> None \<and> (\<forall>x e. setItem x = Some e \<longrightarrow> isQuotaError e) \<longrightarrow>
         (\<exists>k<length h.
            length (fst (saveHistoryWithAutoTrim setItem h)) = Suc k
            \<and> ((\<exists>snapshot. snd (saveHistoryWithAutoTrim setItem h) = Stored snapshot
                    \<and> setItem snapshot = None)
               \<or> (Suc k = length h
                  \<and> snd (saveHistoryWithAutoTrim setItem h) = HistoryTooLarge))))"
proof (intro conjI impI)
  have m: "max 1 (length h) = (if h = [] then 1 else length h)" by (cases h) auto
  with save_attempts [of setItem h]
  show "length (fst (saveHistoryWithAutoTrim setItem h)) \<le> (if h = [] then 1 else length h)"
    by simp
  from save_attempts [of setItem h]
  show "\<forall>j<length (fst (saveHistoryWithAutoTrim setItem h)).
         fst (saveHistoryWithAutoTrim setItem h) ! j = take (length h - j) h
         \<and> length (fst (saveHistoryWithAutoTrim setItem h) ! j) = length h - j"
    by simp
next
  assume "h = []"
  then show "fst (saveHistoryWithAutoTrim setItem h) = [[]]"
    by (simp add: save_empty split: option.splits)
next
  assume "h = []"
  then show "if setItem [] = None then snd (saveHistoryWithAutoTrim setItem h) = Stored []
            else snd (saveHistoryWithAutoTrim setItem h) = ClearFailed"
    by (auto simp: save_empty split: option.splits)
next
  assume a: "h \<noteq> [] \<and> sanitizeHistory h \<noteq> None \<and> (\<forall>x e. setItem x = Some e \<longrightarrow> isQuotaError e)"
  then obtain sh where sh: "sanitizeHistory h = Some sh" by blast
  from a have ne: "h \<noteq> []" and quota: "\<forall>x e. setItem x = Some e \<longrightarrow> isQuotaError e"
    by blast+
  from save_trace [OF ne sh quota]
  show "\<exists>k<length h.
            length (fst (saveHistoryWithAutoTrim setItem h)) = Suc k
            \<and> ((\<exists>snapshot. snd (saveHistoryWithAutoTrim setItem h) = Stored snapshot
                    \<and> setItem snapshot = None)
               \<or> (Suc k = length h
                  \<and> snd (saveHistoryWithAutoTrim setItem h) = HistoryTooLarge))"
    by blast
qed

theorem saveHistoryWithAutoTrim_attempts_bounded_witness:
  "length (fst (saveHistoryWithAutoTrim ex_room_for_one [ex_other, ex_carousel])) \<le> 2
   \<and> fst (saveHistoryWithAutoTrim ex_room_for_one [ex_other, ex_carousel]) ! 1
       = take 1 [ex_other, ex_carousel]
   \<and> length (fst (saveHistoryWithAutoTrim ex_room_for_one [ex_other, ex_carousel]) ! 1) = 1
   \<and> ((\<exists>snapshot. snd (saveHistoryWithAutoTrim ex_room_for_one [ex_other, ex_carousel])
                      = Stored snapshot \<and> ex_room_for_one snapshot = None)
      \<or> snd (saveHistoryWithAutoTrim ex_room_for_one [ex_other, ex_carousel]) = HistoryTooLarge)
   \<and> fst (saveHistoryWithAutoTrim ex_no_room []) = [[]]
   \<and> snd (saveHistoryWithAutoTrim ex_no_room []) = ClearFailed"
proof -
  let ?h = "[ex_other, ex_carousel]"
  have l: "1 < length (fst (saveHistoryWithAutoTrim ex_room_for_one ?h))"
    by (simp add: ex_save_room_for_one)
  have q: "isQuotaError ex_quota_error"
    by (simp add: ex_quota_error_def isQuotaError_def)
  have pre: "?h \<noteq> [] \<and> sanitizeHistory ?h \<noteq> None
               \<and> (\<forall>x e. ex_room_for_one x = Some e \<longrightarrow> isQuotaError e)"
    using q by (simp add: ex_history_sanitized ex_room_for_one_def)
  note th = saveHistoryWithAutoTrim_attempts_bounded [of ex_room_for_one ?h]
  from th have b: "length (fst (saveHistoryWithAutoTrim ex_room_for_one ?h)) \<le> 2"
    by simp
  from th have n: "\<forall>j<length (fst (saveHistoryWithAutoTrim ex_room_for_one ?h)).
         fst (saveHistoryWithAutoTrim ex_room_for_one ?h) ! j = take (length ?h - j) ?h
         \<and> length (fst (saveHistoryWithAutoTrim ex_room_for_one ?h) ! j) = length ?h - j"
    by blast
  from th pre have e: "(\<exists>snapshot. snd (saveHistoryWithAutoTrim ex_room_for_one ?h)
                      = Stored snapshot \<and> ex_room_for_one snapshot = None)
      \<or> snd (saveHistoryWithAutoTrim ex_room_for_one ?h) = HistoryTooLarge"
    by blast
  have ne: "ex_no_room [] \<noteq> None" by (simp add: ex_no_room_def)
  from saveHistoryWithAutoTrim_attempts_bounded [of ex_no_room "[]"] ne
  have z: "fst (saveHistoryWithAutoTrim ex_no_room []) = [[]]
           \<and> snd (saveHistoryWithAutoTrim ex_no_room []) = ClearFailed"
    by simp
  from n [rule_format, OF l] b e z show ?thesis by simp
qed

text \<open>
  Claim C10 as stated fails for the empty history: the routine writes \<^verbatim>\<open>'[]'\<close> once,
  which is more than zero write attempts, and when that write is rejected the run ends
  neither with a success nor with the size error.
\<close>

theorem saveHistoryWithAutoTrim_empty_history_one_write:
  "fst (saveHistoryWithAutoTrim ex_accept_all []) = [[]]
   \<and> \<not> length (fst (saveHistoryWithAutoTrim ex_accept_all [])) \<le> length ([] :: Carousel list)
   \<and> fst (saveHistoryWithAutoTrim ex_no_room []) = [[]]
   \<and> \<not> length (fst (saveHistoryWithAutoTrim ex_no_room [])) \<le> length ([] :: Carousel list)
   \<and> snd (saveHistoryWithAutoTrim ex_no_room []) = ClearFailed"
  by (simp add: save_empty ex_accept_all_def ex_no_room_def)

section \<open>Inline video in the persisted snapshot\<close>




section \<open>Generating a carousel\<close>




section \<open>Classifying errors\<close>

text \<open>
  Claim C7, as the code has it. \<^verbatim>\<open>parseAndDisplayError\<close> maps the message
  \<^verbatim>\<open>{"error":{"code":429,"status":"RESOURCE_EXHAUSTED"}}\<close> to the quota message
  \<^verbatim>\<open>t('errorQuotaExceeded', { link })\<close> with the default link, maps the message
  \<^verbatim>\<open>API key not valid\<close> to \<^verbatim>\<open>t('errorInvalidApiKey')\<close>, and returns every unrecognized
  plain message that is not empty unchanged.
\<close>

theorem parseAndDisplayError_classifies:
  "parseAndDisplayError pf (Some quotaErrorJson)
     = t pf ''errorQuotaExceeded''
         [(''link'', JStr ''https://ai.google.dev/gemini-api/docs/rate-limits'')]
   \<and> parseAndDisplayError pf (Some ''API key not valid'') = t pf ''errorInvalidApiKey'' []
   \<and> (\<forall>m. unrecognizedMessage m \<longrightarrow> parseAndDisplayError pf (Some m) = m)"
proof (intro conjI allI impI)
  show "parseAndDisplayError pf (Some quotaErrorJson)
          = t pf ''errorQuotaExceeded''
              [(''link'', JStr ''https://ai.google.dev/gemini-api/docs/rate-limits'')]"
    unfolding parseAndDisplayError_def
    by (simp add: quotaErrorJson_parsed quotaErrorJson_braces classifyStructured_def get_prop_def
        helpLinkDetailsOf_def helpLinkOf_def nullish_def)
next
  have "\<not> startsWith ''API key not valid'' ''{''" by (simp add: startsWith_def)
  then show "parseAndDisplayError pf (Some ''API key not valid'') = t pf ''errorInvalidApiKey'' []"
    unfolding parseAndDisplayError_def using invalid_key_lower by simp
next
  fix m assume "unrecognizedMessage m"
  then show "parseAndDisplayError pf (Some m) = m"
    by (rule unrecognized_unchanged)
qed

theorem parseAndDisplayError_classifies_witness:
  "unrecognizedMessage ''Failed to fetch''
   \<and> parseAndDisplayError ex_platform (Some ''Failed to fetch'') = ''Failed to fetch''
   \<and> parseAndDisplayError ex_platform (Some quotaErrorJson)
       = t ex_platform ''errorQuotaExceeded''
           [(''link'', JStr ''https://ai.google.dev/gemini-api/docs/rate-limits'')]"
  using parseAndDisplayError_classifies [of ex_platform] ex_message_unrecognized by blast

text \<open>
  Claim C7 as stated fails for the empty message, which matches none of the classifier's
  patterns and yet is not returned: the classifier takes \<^verbatim>\<open>t('errorUnknown')\<close> in its
  place.
\<close>

theorem parseAndDisplayError_empty_message:
  "parseAndDisplayError ex_platform (Some []) = ''An unknown error occurred.''
   \<and> parseAndDisplayError ex_platform (Some []) \<noteq> []"
proof -
  have "parseAndDisplayError ex_platform (Some []) = ''An unknown error occurred.''"
    using unrecognized_unchanged [OF unknown_text_unrecognized, of ex_platform]
    by (simp only: empty_message_replaced t_errorUnknown)
  then show ?thesis by simp
qed

end
